theory Spec2Isabelle
  imports Main "HOL-Library.Word" "HOL-Library.Signed_Division" "HOL-Library.Sublist"
begin

section \<open>Machine integers\<close>

text \<open>
  Go's \<open>int64\<close> is a 64-bit word read as two's complement: \<open>+\<close>, \<open>-\<close> and \<open>*\<close> wrap,
  comparisons are signed (\<open><s\<close>), and \<open>/\<close> and \<open>%\<close> truncate towards zero.
\<close>

type_synonym int64 = "64 word"

definition int64_quo :: "int64 \<Rightarrow> int64 \<Rightarrow> int64" where
  "int64_quo a b = word_of_int (sint a sdiv sint b)"

definition int64_rem :: "int64 \<Rightarrow> int64 \<Rightarrow> int64" where
  "int64_rem a b = word_of_int (sint a smod sint b)"

definition MaxChunkSize :: int64 where
  "MaxChunkSize = 262144"

text \<open>\<open>api.ObjectStat\<close> (api/types.go), with the embedded \<open>HasHash\<close> flattened.\<close>

record ObjectStat =
  Hash :: string
  NumLinks :: int64
  BlockSize :: int64
  LinksSize :: int64
  DataSize :: int64
  CumulativeSize :: int64

section \<open>Size conversion (backend/ipfs/ipfs.go)\<close>

definition convertSmallFileSize :: "int64 \<Rightarrow> int64" where
  "convertSmallFileSize cumulativeSize =
     (if cumulativeSize = 0 then 0
      else if cumulativeSize <s 9 then cumulativeSize - 6
      else if cumulativeSize <s 131 then cumulativeSize - 8
      else if cumulativeSize <s 139 then cumulativeSize - 9
      else if cumulativeSize <s 16388 then cumulativeSize - 11
      else if cumulativeSize <s 16398 then cumulativeSize - 12
      else cumulativeSize - 14)"

definition convertToFileSize :: "ObjectStat \<Rightarrow> int64" where
  "convertToFileSize stat =
     (let cumulativeSize = CumulativeSize stat in
      if cumulativeSize <s MaxChunkSize + 123 then convertSmallFileSize cumulativeSize
      else
        let i = cumulativeSize - BlockSize stat;
            maxSizeChunks = int64_quo i (MaxChunkSize + 14);
            remainingSizeChunk = int64_rem i (MaxChunkSize + 14)
        in i - (maxSizeChunks * 14) - (remainingSizeChunk - convertSmallFileSize remainingSizeChunk))"

section \<open>Go library functions used by the backend\<close>

text \<open>
  \<open>strings.HasPrefix\<close> and \<open>strings.Contains\<close> on byte strings.
\<close>

definition strings_HasPrefix :: "string \<Rightarrow> string \<Rightarrow> bool" where
  "strings_HasPrefix s pre = prefix pre s"

definition strings_Contains :: "string \<Rightarrow> string \<Rightarrow> bool" where
  "strings_Contains s substr = sublist substr s"

text \<open>
  \<open>path.Split\<close>: the path is cut right after its last slash; without a slash the
  directory part is empty.
\<close>

definition path_Split :: "string \<Rightarrow> string \<times> string" where
  "path_Split p =
     (let file = rev (takeWhile (\<lambda>c. c \<noteq> CHR ''/'') (rev p))
      in (take (length p - length file) p, file))"

text \<open>
  \<open>path.Clean\<close>, by path elements: empty elements and \<open>.\<close> are dropped, \<open>..\<close> removes
  the element before it, is dropped at the start of a rooted path and is kept at the
  start of any other path; the empty result is \<open>.\<close>.
\<close>

fun splitSlash :: "string \<Rightarrow> string list" where
  "splitSlash [] = [[]]"
| "splitSlash (c # cs) =
     (if c = CHR ''/'' then [] # splitSlash cs
      else (case splitSlash cs of [] \<Rightarrow> [[c]] | w # ws \<Rightarrow> (c # w) # ws))"

fun joinSlash :: "string list \<Rightarrow> string" where
  "joinSlash [] = []"
| "joinSlash [e] = e"
| "joinSlash (e # es) = e @ ''/'' @ joinSlash es"

fun cleanElems :: "bool \<Rightarrow> string list \<Rightarrow> string list \<Rightarrow> string list" where
  "cleanElems rooted out [] = rev out"
| "cleanElems rooted out (e # es) =
     (if e = [] \<or> e = ''.'' then cleanElems rooted out es
      else if e = ''..'' then
        (case out of
           [] \<Rightarrow> if rooted then cleanElems rooted [] es else cleanElems rooted [''..''] es
         | t # ts \<Rightarrow> if t = ''..'' then cleanElems rooted (''..'' # out) es
                     else cleanElems rooted ts es)
      else cleanElems rooted (e # out) es)"

definition path_Clean :: "string \<Rightarrow> string" where
  "path_Clean p =
     (if p = [] then ''.''
      else
        let rooted = (hd p = CHR ''/'');
            out = (if rooted then ''/'' else []) @ joinSlash (cleanElems rooted [] (splitSlash p))
        in if out = [] then ''.'' else out)"

text \<open>
  \<open>path.Join\<close>: the elements from the first non-empty one on, joined by slashes and
  cleaned; the empty string when all are empty.
\<close>

fun joinElems :: "string \<Rightarrow> string list \<Rightarrow> string" where
  "joinElems buf [] = buf"
| "joinElems buf (e # es) =
     (if buf \<noteq> [] \<or> e \<noteq> [] then joinElems ((if buf \<noteq> [] then buf @ ''/'' else buf) @ e) es
      else joinElems buf es)"

definition path_Join :: "string list \<Rightarrow> string" where
  "path_Join elem = (if concat elem = [] then [] else path_Clean (joinElems [] elem))"



section \<open>Errors\<close>

text \<open>
  Values of Go's \<open>error\<close> interface that occur in the backend:
  \<open>ApiError m\<close> is a decoded \<open>*api.Error\<close> with \<open>Message = m\<close> (what the client's error
  handler returns for a non-2xx response), \<open>OtherError m\<close> is any other error of the
  REST client with text \<open>m\<close>, \<open>New\<close> and \<open>Wrap\<close> are \<open>errors.New\<close> and \<open>errors.Wrap\<close>, the
  \<open>Error...\<close> constants are the sentinels of package \<open>fs\<close>. A run-time panic of Go
  (index out of range) is the value \<open>GoPanic\<close>; it travels up the call chain like an
  error that no caller inspects.
\<close>

datatype error =
    ApiError string
  | OtherError string
  | New string
  | Wrap error string
  | ErrorObjectNotFound
  | ErrorDirNotFound
  | ErrorNotAFile
  | ErrorDirectoryNotEmpty
  | ErrorDirExists
  | ErrorIsFile
  | GoPanic string

text \<open>The \<open>Error()\<close> method: the text of an error value.\<close>

fun Error :: "error \<Rightarrow> string" where
  "Error (ApiError m) = m"
| "Error (OtherError m) = m"
| "Error (New m) = m"
| "Error (Wrap e m) = m @ '': '' @ Error e"
| "Error ErrorObjectNotFound = ''object not found''"
| "Error ErrorDirNotFound = ''directory not found''"
| "Error ErrorNotAFile = ''is not a regular file''"
| "Error ErrorDirectoryNotEmpty = ''directory not empty''"
| "Error ErrorDirExists = ''can't copy directory - destination already exists''"
| "Error ErrorIsFile = ''is a file not a directory''"
| "Error (GoPanic m) = m"

text \<open>The type assertion \<open>err.(*api.Error)\<close>.\<close>

fun isApiError :: "error \<Rightarrow> bool" where
  "isApiError (ApiError m) = True"
| "isApiError e = False"


section \<open>API types (backend/ipfs/api/types.go)\<close>

definition FileEntryTypeFolder :: "32 word" where
  "FileEntryTypeFolder = 1"

definition FileEntryTypeFile :: "32 word" where
  "FileEntryTypeFile = 2"

record FileAdded =
  FileAdded_Hash :: string
  FileAdded_Name :: string
  FileAdded_Size :: string

record Link =
  Link_Hash :: string
  Link_Name :: string
  Link_Size :: int64
  Link_Type :: "32 word"

text \<open>
  \<open>Before\<close> and \<open>After\<close> are Go maps that may be \<open>nil\<close>: \<open>None\<close> is the nil map. Reading a
  key that a map does not hold gives the empty string.
\<close>

record ObjectChange =
  Change_Type :: int
  Path :: string
  Before :: "(string \<rightharpoonup> string) option"
  After :: "(string \<rightharpoonup> string) option"

definition map_index :: "(string \<rightharpoonup> string) option \<Rightarrow> string \<Rightarrow> string" where
  "map_index m k = (case m of None \<Rightarrow> [] | Some f \<Rightarrow> (case f k of None \<Rightarrow> [] | Some v \<Rightarrow> v))"

record Key =
  Key_Name :: string
  Key_Id :: string

section \<open>The API client (backend/ipfs/api/api.go)\<close>

text \<open>
  Every method of \<open>api.Client\<close> is one HTTP request. The requests issued are recorded,
  oldest first, each with the error it came back with (\<open>None\<close> for success).
\<close>

datatype call =
    CAdd string string
  | CIsReadOnly
  | CLs string
  | CObjectStat string
  | CObjectPatchAddLink string string string
  | CObjectPatchRmLink string string
  | CObjectNewDir
  | CObjectDiff string string
  | CFilesStat string
  | CFilesCp string string
  | CFilesRm string
  | CNameResolve string
  | CKeyList
  | CNamePublish string string
  | CPinAdd string bool
  | CPinRm string

type_synonym event = "call \<times> error option"

text \<open>
  A client is the behaviour of the endpoint it is connected to: for each method, the
  answer and the endpoint's next state, as a function of the arguments and of the
  endpoint's state \<open>'s\<close>. The state of the endpoint changes through requests only.
  \<open>Ls\<close> answers with the \<open>Links\<close> of each element of \<open>List.Objects\<close>.
\<close>

record 's Client =
  on_Add :: "string \<Rightarrow> string \<Rightarrow> 's \<Rightarrow> (error + FileAdded) \<times> 's"
  on_IsReadOnly :: "'s \<Rightarrow> (error + bool) \<times> 's"
  on_Ls :: "string \<Rightarrow> 's \<Rightarrow> (error + Link list list) \<times> 's"
  on_ObjectStat :: "string \<Rightarrow> 's \<Rightarrow> (error + ObjectStat) \<times> 's"
  on_ObjectPatchAddLink :: "string \<Rightarrow> string \<Rightarrow> string \<Rightarrow> 's \<Rightarrow> (error + string) \<times> 's"
  on_ObjectPatchRmLink :: "string \<Rightarrow> string \<Rightarrow> 's \<Rightarrow> (error + string) \<times> 's"
  on_ObjectNewDir :: "'s \<Rightarrow> (error + string) \<times> 's"
  on_ObjectDiff :: "string \<Rightarrow> string \<Rightarrow> 's \<Rightarrow> (error + ObjectChange list) \<times> 's"
  on_FilesStat :: "string \<Rightarrow> 's \<Rightarrow> (error + string) \<times> 's"
  on_FilesCp :: "string \<Rightarrow> string \<Rightarrow> 's \<Rightarrow> error option \<times> 's"
  on_FilesRm :: "string \<Rightarrow> 's \<Rightarrow> error option \<times> 's"
  on_NameResolve :: "string \<Rightarrow> 's \<Rightarrow> (error + string) \<times> 's"
  on_KeyList :: "'s \<Rightarrow> (error + Key list) \<times> 's"
  on_NamePublish :: "string \<Rightarrow> string \<Rightarrow> 's \<Rightarrow> error option \<times> 's"
  on_PinAdd :: "string \<Rightarrow> bool \<Rightarrow> 's \<Rightarrow> error option \<times> 's"
  on_PinRm :: "string \<Rightarrow> 's \<Rightarrow> error option \<times> 's"

section \<open>Options, roots and the state of the process\<close>

text \<open>\<open>Options\<close> (ipfs.go); \<open>fs.Duration\<close> is an \<open>int64\<close>.\<close>

record Options =
  Endpoint :: string
  IpfsRoot :: string
  UpdatePeriod :: int64

text \<open>
  \<open>Root\<close> (the root state): the fields of the Go struct without its lock and its wait
  group. The operations below run one at a time, so a lock that every path releases
  again is not part of the state.
\<close>

record 's Root =
  api :: "'s Client"
  opt :: Options
  lastPersistedHash :: string
  hash :: string
  ipnsPath :: string
  ipnsKey :: string
  isMFS :: bool
  isReadOnly :: bool

text \<open>
  The state of the process and of the network: the state of the endpoints, the
  requests issued so far, the heap of \<open>Root\<close> objects (a \<open>*Root\<close> is an address),
  the next free address, the package variable \<open>sharedRoot\<close> (its mutex and its
  \<open>cache\<close> map), and the roots for which \<open>periodicPersist\<close> and the exit hook
  have been started.
\<close>

record 's world =
  server :: 's
  trace :: "event list"
  roots :: "nat \<Rightarrow> 's Root"
  nextRoot :: nat
  sharedRoot_locked :: bool
  sharedRoot_cache :: "Options \<rightharpoonup> nat"
  persistLoops :: "nat list"

text \<open>The requests issued between an earlier state and a later one.\<close>

definition calls_since :: "'s world \<Rightarrow> 's world \<Rightarrow> event list" where
  "calls_since st st' = drop (length (trace st)) (trace st')"

text \<open>
  One request: the endpoint answers and moves to its next state, the request and its
  error are appended to the trace.
\<close>

definition request :: "call \<Rightarrow> ('s \<Rightarrow> (error + 'r) \<times> 's) \<Rightarrow> 's world \<Rightarrow> (error + 'r) \<times> 's world" where
  "request c f st =
     (case f (server st) of
        (r, s') \<Rightarrow>
          (r, st\<lparr>server := s',
                 trace := trace st @ [(c, case r of Inl e \<Rightarrow> Some e | Inr v \<Rightarrow> None)]\<rparr>))"

definition request_err :: "call \<Rightarrow> ('s \<Rightarrow> error option \<times> 's) \<Rightarrow> 's world \<Rightarrow> error option \<times> 's world" where
  "request_err c f st =
     (case f (server st) of
        (r, s') \<Rightarrow> (r, st\<lparr>server := s', trace := trace st @ [(c, r)]\<rparr>))"

definition api_Add :: "'s Client \<Rightarrow> string \<Rightarrow> string \<Rightarrow> 's world \<Rightarrow> (error + FileAdded) \<times> 's world" where
  "api_Add a content name = request (CAdd content name) (on_Add a content name)"

definition api_IsReadOnly :: "'s Client \<Rightarrow> 's world \<Rightarrow> (error + bool) \<times> 's world" where
  "api_IsReadOnly a = request CIsReadOnly (on_IsReadOnly a)"

text \<open>\<open>Ls\<close> returns \<open>result.Objects[0].Links\<close>: an empty \<open>Objects\<close> is an index out of range.\<close>

definition api_Ls :: "'s Client \<Rightarrow> string \<Rightarrow> 's world \<Rightarrow> (error + Link list) \<times> 's world" where
  "api_Ls a p st =
     (case request (CLs p) (on_Ls a p) st of
        (Inl err, st1) \<Rightarrow> (Inl err, st1)
      | (Inr objects, st1) \<Rightarrow>
          (case objects of
             [] \<Rightarrow> (Inl (GoPanic ''index out of range''), st1)
           | links # _ \<Rightarrow> (Inr links, st1)))"

definition api_ObjectStat :: "'s Client \<Rightarrow> string \<Rightarrow> 's world \<Rightarrow> (error + ObjectStat) \<times> 's world" where
  "api_ObjectStat a objectPath = request (CObjectStat objectPath) (on_ObjectStat a objectPath)"

definition api_ObjectPatchAddLink ::
  "'s Client \<Rightarrow> string \<Rightarrow> string \<Rightarrow> string \<Rightarrow> 's world \<Rightarrow> (error + string) \<times> 's world" where
  "api_ObjectPatchAddLink a rootHash p linkHash =
     request (CObjectPatchAddLink rootHash p linkHash) (on_ObjectPatchAddLink a rootHash p linkHash)"

definition api_ObjectPatchRmLink ::
  "'s Client \<Rightarrow> string \<Rightarrow> string \<Rightarrow> 's world \<Rightarrow> (error + string) \<times> 's world" where
  "api_ObjectPatchRmLink a rootHash p =
     request (CObjectPatchRmLink rootHash p) (on_ObjectPatchRmLink a rootHash p)"

definition api_ObjectNewDir :: "'s Client \<Rightarrow> 's world \<Rightarrow> (error + string) \<times> 's world" where
  "api_ObjectNewDir a = request CObjectNewDir (on_ObjectNewDir a)"

definition api_ObjectDiff ::
  "'s Client \<Rightarrow> string \<Rightarrow> string \<Rightarrow> 's world \<Rightarrow> (error + ObjectChange list) \<times> 's world" where
  "api_ObjectDiff a object1 object2 = request (CObjectDiff object1 object2) (on_ObjectDiff a object1 object2)"

definition api_FilesStat :: "'s Client \<Rightarrow> string \<Rightarrow> 's world \<Rightarrow> (error + string) \<times> 's world" where
  "api_FilesStat a file = request (CFilesStat file) (on_FilesStat a file)"

definition api_FilesCp :: "'s Client \<Rightarrow> string \<Rightarrow> string \<Rightarrow> 's world \<Rightarrow> error option \<times> 's world" where
  "api_FilesCp a from to = request_err (CFilesCp from to) (on_FilesCp a from to)"

definition api_FilesRm :: "'s Client \<Rightarrow> string \<Rightarrow> 's world \<Rightarrow> error option \<times> 's world" where
  "api_FilesRm a dir = request_err (CFilesRm dir) (on_FilesRm a dir)"

definition api_NameResolve :: "'s Client \<Rightarrow> string \<Rightarrow> 's world \<Rightarrow> (error + string) \<times> 's world" where
  "api_NameResolve a p = request (CNameResolve p) (on_NameResolve a p)"

definition api_KeyList :: "'s Client \<Rightarrow> 's world \<Rightarrow> (error + Key list) \<times> 's world" where
  "api_KeyList a = request CKeyList (on_KeyList a)"

definition api_NamePublish :: "'s Client \<Rightarrow> string \<Rightarrow> string \<Rightarrow> 's world \<Rightarrow> error option \<times> 's world" where
  "api_NamePublish a ipfsPath key = request_err (CNamePublish ipfsPath key) (on_NamePublish a ipfsPath key)"

definition api_PinAdd :: "'s Client \<Rightarrow> string \<Rightarrow> bool \<Rightarrow> 's world \<Rightarrow> error option \<times> 's world" where
  "api_PinAdd a h recursive = request_err (CPinAdd h recursive) (on_PinAdd a h recursive)"

definition api_PinRm :: "'s Client \<Rightarrow> string \<Rightarrow> 's world \<Rightarrow> error option \<times> 's world" where
  "api_PinRm a h = request_err (CPinRm h) (on_PinRm a h)"

section \<open>Persistence of the root\<close>

definition listChangedPath :: "ObjectChange list \<Rightarrow> string list" where
  "listChangedPath changes = map Path changes"

text \<open>
  The loop of \<open>persistToMFS\<close> over \<open>diff.Changes\<close>. In its body the one variable
  \<open>err\<close> takes the result of \<open>FilesRm\<close> and then, when \<open>After\<close> is not nil, the result
  of \<open>FilesCp\<close>; \<open>persistChange\<close> is the body up to the test of \<open>err\<close>.
\<close>

definition persistChange :: "'s Client \<Rightarrow> ObjectChange \<Rightarrow> 's world \<Rightarrow> error option \<times> 's world" where
  "persistChange a change st =
     (let filePath = ''/'' @ Path change;
          rm = (if Before change \<noteq> None then api_FilesRm a filePath st else (None, st))
      in if After change \<noteq> None
         then api_FilesCp a (''/ipfs/'' @ map_index (After change) ''/'') filePath (snd rm)
         else rm)"

fun persistChanges :: "'s Client \<Rightarrow> ObjectChange list \<Rightarrow> 's world \<Rightarrow> error option \<times> 's world" where
  "persistChanges a [] st = (None, st)"
| "persistChanges a (change # rest) st =
     (case persistChange a change st of
        (Some err, st1) \<Rightarrow>
          (Some (Wrap err (''could not update MFS at path '' @ [CHR 0x27] @ (''/'' @ Path change) @ [CHR 0x27])), st1)
      | (None, st1) \<Rightarrow> persistChanges a rest st1)"

text \<open>The two nested loops of \<open>persistToMFS\<close> that look for incompatible changes.\<close>

definition incompatibleChanges :: "string list \<Rightarrow> string list \<Rightarrow> bool" where
  "incompatibleChanges externalChangedPaths localChangedPaths =
     list_ex (\<lambda>externalChangedPath.
        list_ex (\<lambda>localChangedPath.
           strings_HasPrefix externalChangedPath localChangedPath \<or>
           strings_HasPrefix localChangedPath externalChangedPath) localChangedPaths)
        externalChangedPaths"

definition persistToMFS :: "'s Client \<Rightarrow> string \<Rightarrow> string \<Rightarrow> 's world \<Rightarrow> error option \<times> 's world" where
  "persistToMFS a lastPersistedHash' newHash st =
     (case api_FilesStat a ''/'' st of
        (Inl err, st1) \<Rightarrow> (Some (Wrap err ''could not obtain stats for MFS root directory''), st1)
      | (Inr stat, st1) \<Rightarrow>
          (case api_ObjectDiff a lastPersistedHash' newHash st1 of
             (Inl err, st2) \<Rightarrow> (Some err, st2)
           | (Inr diff, st2) \<Rightarrow>
               if stat \<noteq> lastPersistedHash' then
                 (case api_ObjectDiff a stat lastPersistedHash' st2 of
                    (Inl err, st3) \<Rightarrow> (Some err, st3)
                  | (Inr externalDiff, st3) \<Rightarrow>
                      if incompatibleChanges (listChangedPath externalDiff) (listChangedPath diff)
                      then (Some (New ''Error: concurrent modification of the IPFS MFS. Consistency not guaranteed.''), st3)
                      else persistChanges a diff st3)
               else persistChanges a diff st2))"

definition persistToIPNS ::
  "'s Client \<Rightarrow> string \<Rightarrow> string \<Rightarrow> string \<Rightarrow> string \<Rightarrow> 's world \<Rightarrow> error option \<times> 's world" where
  "persistToIPNS a lastPersistedHash' newHash ipnsPath' ipnsKey' st =
     (case api_NameResolve a ipnsPath' st of
        (Inl err, st1) \<Rightarrow>
          (Some (Wrap err (''could not resolve IPNS path '' @ [CHR 0x27] @ ipnsPath' @ [CHR 0x27])), st1)
      | (Inr result, st1) \<Rightarrow>
          (let ipfsHash = snd (path_Split result) in
           if lastPersistedHash' \<noteq> ipfsHash
           then (Some (New ''concurrent modification of the IPFS IPNS. Consistency not guaranteed.''), st1)
           else
             (case api_NamePublish a newHash ipnsKey' st1 of
                (Some err, st2) \<Rightarrow>
                  (Some (Wrap err (''could not update IPNS path '' @ [CHR 0x27] @ ipnsPath' @ [CHR 0x27])), st2)
              | (None, st2) \<Rightarrow> (None, st2))))"

definition updatePin :: "'s Client \<Rightarrow> string \<Rightarrow> string \<Rightarrow> 's world \<Rightarrow> error option \<times> 's world" where
  "updatePin client lastPersistedHash' newHash st =
     (case api_PinAdd client newHash True st of
        (Some err, st1) \<Rightarrow>
          (Some (Wrap err ''could not pin hash on IPFS endpoint. Consistency not guaranteed.''), st1)
      | (None, st1) \<Rightarrow>
          (case api_PinRm client lastPersistedHash' st1 of
             (Some err, st2) \<Rightarrow>
               (let isAlreadyNotPinned = strings_Contains (Error err) ''not pinned'' in
                if \<not> isAlreadyNotPinned
                then (Some (Wrap err (''could not un-pin old hash '' @ [CHR 0x27] @ lastPersistedHash' @ [CHR 0x27] @ ''.'')), st2)
                else (None, st2))
           | (None, st2) \<Rightarrow> (None, st2)))"

text \<open>
  The step of \<open>Root.persist\<close> that updates the persisted hash: the write-back to MFS,
  or to IPNS when the root has a key, and nothing otherwise.
\<close>

definition writeBack :: "nat \<Rightarrow> 's world \<Rightarrow> error option \<times> 's world" where
  "writeBack r st =
     (if isMFS (roots st r)
      then persistToMFS (api (roots st r)) (lastPersistedHash (roots st r)) (hash (roots st r)) st
      else if ipnsKey (roots st r) \<noteq> []
      then persistToIPNS (api (roots st r)) (lastPersistedHash (roots st r)) (hash (roots st r))
             (ipnsPath (roots st r)) (ipnsKey (roots st r)) st
      else (None, st))"

text \<open>The assignment \<open>r.lastPersistedHash = r.hash\<close>.\<close>

definition markPersisted :: "nat \<Rightarrow> 's world \<Rightarrow> 's world" where
  "markPersisted r st = st\<lparr>roots := (roots st)(r := (roots st r)\<lparr>lastPersistedHash := hash (roots st r)\<rparr>)\<rparr>"

text \<open>
  \<open>Root.persist\<close> on the root at address \<open>r\<close>. The function has no result and ends
  in \<open>panic(err)\<close> on an error: \<open>Some err\<close> is that panic, \<open>None\<close> the normal return.
\<close>

definition persist :: "nat \<Rightarrow> 's world \<Rightarrow> error option \<times> 's world" where
  "persist r st =
     (if hash (roots st r) = lastPersistedHash (roots st r) then (None, st)
      else
        (case updatePin (api (roots st r)) (lastPersistedHash (roots st r)) (hash (roots st r)) st of
           (Some err, st1) \<Rightarrow> (Some err, st1)
         | (None, st1) \<Rightarrow>
             (case writeBack r st1 of
                (Some err, st2) \<Rightarrow> (Some err, st2)
              | (None, st2) \<Rightarrow> (None, markPersisted r st2))))"

text \<open>
  \<open>periodicPersist\<close> arms a timer that calls \<open>persist\<close> and then \<open>periodicPersist\<close>
  again; what the model keeps of it is that the loop was started for a root
  (\<open>persistLoops\<close>).
\<close>

section \<open>The file system (backend/ipfs/ipfs.go)\<close>

text \<open>
  \<open>Fs\<close>: \<open>ipfsRoot\<close> is the address of the shared root (0 is the nil pointer, the
  addresses in use start at 1), \<open>fs_emptyDirHash\<close> is the field \<open>_emptyDirHash\<close>.
  An \<open>Object\<close> carries its \<open>Fs\<close>; through it the code reads only the fields that never
  change after \<open>NewFs\<close>.
\<close>

record 's Fs =
  fs_name :: string
  fs_root :: string
  fs_opt :: Options
  fs_api :: "'s Client"
  ipfsRoot :: nat
  fs_emptyDirHash :: string

record 's Object =
  o_fs :: "'s Fs"
  o_remote :: string
  o_size :: int64
  o_ipfsHash :: string

text \<open>The assignment \<open>r.hash = h\<close> to the root at address \<open>r\<close>.\<close>

definition store_hash :: "nat \<Rightarrow> string \<Rightarrow> 's world \<Rightarrow> 's world" where
  "store_hash r h st = st\<lparr>roots := (roots st)(r := (roots st r)\<lparr>hash := h\<rparr>)\<rparr>"

definition emptyDirHash :: "'s Fs \<Rightarrow> 's world \<Rightarrow> (error + string) \<times> 's Fs \<times> 's world" where
  "emptyDirHash f st =
     (if fs_emptyDirHash f = [] then
        (case api_ObjectNewDir (fs_api f) st of
           (Inl err, st1) \<Rightarrow> (Inl err, f, st1)
         | (Inr result, st1) \<Rightarrow> (Inr result, f\<lparr>fs_emptyDirHash := result\<rparr>, st1))
      else (Inr (fs_emptyDirHash f), f, st))"

text \<open>Despite its name the function removes one leading slash.\<close>

definition removeTrailingSlash :: "string \<Rightarrow> string" where
  "removeTrailingSlash s = (if strings_HasPrefix s ''/'' then drop 1 s else s)"

definition relativePath :: "'s Fs \<Rightarrow> string \<Rightarrow> string" where
  "relativePath f remote = removeTrailingSlash (path_Join [fs_root f, remote])"

definition checkReadOnly :: "'s Fs \<Rightarrow> 's world \<Rightarrow> error option" where
  "checkReadOnly f st =
     (if isReadOnly (roots st (ipfsRoot f))
      then Some (New (''IPFS path '' @ [CHR 0x27] @ IpfsRoot (fs_opt f) @ [CHR 0x27] @ '' is read only!''))
      else None)"

definition newObject :: "'s Fs \<Rightarrow> string \<Rightarrow> ObjectStat \<Rightarrow> 's Object" where
  "newObject f remote stat =
     \<lparr>o_fs = f, o_remote = remote, o_size = convertToFileSize stat, o_ipfsHash = Hash stat\<rparr>"

definition NewObject :: "'s Fs \<Rightarrow> string \<Rightarrow> 's world \<Rightarrow> (error + 's Object) \<times> 's world" where
  "NewObject f remote st =
     (let rootHash = hash (roots st (ipfsRoot f));
          absolutePath = path_Join [rootHash, relativePath f remote]
      in case api_ObjectStat (fs_api f) absolutePath st of
           (Inl err, st1) \<Rightarrow> (if isApiError err then (Inl ErrorObjectNotFound, st1) else (Inl err, st1))
         | (Inr stat, st1) \<Rightarrow>
             (let (dir, file) = path_Split absolutePath in
              if dir \<noteq> rootHash then
                (case api_Ls (fs_api f) dir st1 of
                   (Inl err, st2) \<Rightarrow> (Inl err, st2)
                 | (Inr links, st2) \<Rightarrow>
                     (let isFile = (case find (\<lambda>link. Link_Name link = file) links of
                                      None \<Rightarrow> False
                                    | Some link \<Rightarrow> Link_Type link = FileEntryTypeFile)
                      in if \<not> isFile then (Inl ErrorNotAFile, st2)
                         else (Inr (newObject f remote stat), st2)))
              else (Inl ErrorNotAFile, st1)))"

text \<open>
  \<open>Put\<close>: \<open>content\<close> stands for the bytes of the reader \<open>in\<close>, \<open>srcRemote\<close> for
  \<open>src.Remote()\<close>.
\<close>

definition Put :: "'s Fs \<Rightarrow> string \<Rightarrow> string \<Rightarrow> 's world \<Rightarrow> (error + 's Object) \<times> 's world" where
  "Put f content srcRemote st =
     (case checkReadOnly f st of
        Some err \<Rightarrow> (Inl err, st)
      | None \<Rightarrow>
          (let file = snd (path_Split srcRemote) in
           case api_Add (fs_api f) content file st of
             (Inl err, st1) \<Rightarrow> (Inl err, st1)
           | (Inr fileAdded, st1) \<Rightarrow>
               (let objectPath = relativePath f srcRemote in
                case api_ObjectPatchAddLink (fs_api f) (hash (roots st1 (ipfsRoot f))) objectPath
                       (FileAdded_Hash fileAdded) st1 of
                  (Inl err, st2) \<Rightarrow> (Inl err, st2)
                | (Inr result, st2) \<Rightarrow> NewObject f srcRemote (store_hash (ipfsRoot f) result st2))))"

definition Mkdir :: "'s Fs \<Rightarrow> string \<Rightarrow> 's world \<Rightarrow> error option \<times> 's Fs \<times> 's world" where
  "Mkdir f dir st =
     (case checkReadOnly f st of
        Some err \<Rightarrow> (Some err, f, st)
      | None \<Rightarrow>
          (case emptyDirHash f st of
             (Inl err, f1, st1) \<Rightarrow> (Some err, f1, st1)
           | (Inr emptyDirHash', f1, st1) \<Rightarrow>
               (let dirPath = relativePath f1 dir in
                case api_ObjectStat (fs_api f1) (path_Join [hash (roots st1 (ipfsRoot f1)), dirPath]) st1 of
                  (Inr stat, st2) \<Rightarrow> (None, f1, st2)
                | (Inl err, st2) \<Rightarrow>
                    (case api_ObjectPatchAddLink (fs_api f1) (hash (roots st2 (ipfsRoot f1))) dirPath
                            emptyDirHash' st2 of
                       (Inl err, st3) \<Rightarrow> (Some err, f1, st3)
                     | (Inr result, st3) \<Rightarrow> (None, f1, store_hash (ipfsRoot f1) result st3)))))"

definition Rmdir :: "'s Fs \<Rightarrow> string \<Rightarrow> 's world \<Rightarrow> error option \<times> 's world" where
  "Rmdir f dir st =
     (case checkReadOnly f st of
        Some err \<Rightarrow> (Some err, st)
      | None \<Rightarrow>
          (let absolutePath = path_Join [hash (roots st (ipfsRoot f)), relativePath f dir] in
           case api_ObjectStat (fs_api f) absolutePath st of
             (Inl err, st1) \<Rightarrow> (if isApiError err then (Some ErrorDirNotFound, st1) else (Some err, st1))
           | (Inr stat, st1) \<Rightarrow>
               if 0 <s NumLinks stat then (Some ErrorDirectoryNotEmpty, st1)
               else
                 (let dirPath = relativePath f dir in
                  case api_ObjectPatchRmLink (fs_api f) (hash (roots st1 (ipfsRoot f))) dirPath st1 of
                    (Inl err, st2) \<Rightarrow> (Some err, st2)
                  | (Inr result, st2) \<Rightarrow> (None, store_hash (ipfsRoot f) result st2))))"

definition Copy :: "'s Fs \<Rightarrow> 's Object \<Rightarrow> string \<Rightarrow> 's world \<Rightarrow> (error + 's Object) \<times> 's world" where
  "Copy f src remote st =
     (case checkReadOnly f st of
        Some err \<Rightarrow> (Inl err, st)
      | None \<Rightarrow>
          (let objectPath = relativePath f remote in
           case api_ObjectPatchAddLink (fs_api f) (hash (roots st (ipfsRoot f))) objectPath
                  (o_ipfsHash src) st of
             (Inl err, st1) \<Rightarrow> (Inl err, st1)
           | (Inr result, st1) \<Rightarrow> NewObject f remote (store_hash (ipfsRoot f) result st1)))"

definition Remove :: "'s Object \<Rightarrow> 's world \<Rightarrow> error option \<times> 's world" where
  "Remove o' st =
     (case checkReadOnly (o_fs o') st of
        Some err \<Rightarrow> (Some err, st)
      | None \<Rightarrow>
          (case api_ObjectPatchRmLink (fs_api (o_fs o')) (hash (roots st (ipfsRoot (o_fs o'))))
                  (relativePath (o_fs o') (o_remote o')) st of
             (Inl err, st1) \<Rightarrow> (if isApiError err then (Some ErrorObjectNotFound, st1) else (Some err, st1))
           | (Inr result, st1) \<Rightarrow> (None, store_hash (ipfsRoot (o_fs o')) result st1)))"

definition Move :: "'s Fs \<Rightarrow> 's Object \<Rightarrow> string \<Rightarrow> 's world \<Rightarrow> (error + 's Object) \<times> 's world" where
  "Move f src remote st =
     (case checkReadOnly f st of
        Some err \<Rightarrow> (Inl err, st)
      | None \<Rightarrow>
          (case Copy f src remote st of
             (Inl err, st1) \<Rightarrow> (Inl err, st1)
           | (Inr obj, st1) \<Rightarrow>
               (case Remove src st1 of
                  (Some err, st2) \<Rightarrow> (Inl err, st2)
                | (None, st2) \<Rightarrow> (Inr obj, st2))))"

definition DirMove :: "'s Fs \<Rightarrow> 's Fs \<Rightarrow> string \<Rightarrow> string \<Rightarrow> 's world \<Rightarrow> error option \<times> 's world" where
  "DirMove f srcFs srcRemote dstRemote st =
     (case checkReadOnly f st of
        Some err \<Rightarrow> (Some err, st)
      | None \<Rightarrow>
          (let dstRelativePath = relativePath f dstRemote;
               destAbsolutePath = path_Join [hash (roots st (ipfsRoot f)), dstRelativePath]
           in case api_ObjectStat (fs_api f) destAbsolutePath st of
                (Inr destStat, st1) \<Rightarrow> (Some ErrorDirExists, st1)
              | (Inl err0, st1) \<Rightarrow>
                  (let srcRelativePath = relativePath srcFs srcRemote;
                       srcAbsolutePath = path_Join [hash (roots st1 (ipfsRoot f)), srcRelativePath]
                   in case api_ObjectStat (fs_api f) srcAbsolutePath st1 of
                        (Inl err, st2) \<Rightarrow> (Some err, st2)
                      | (Inr srcStat, st2) \<Rightarrow>
                          (case api_ObjectPatchAddLink (fs_api f) (hash (roots st2 (ipfsRoot f)))
                                  dstRelativePath (Hash srcStat) st2 of
                             (Inl err, st3) \<Rightarrow> (Some err, st3)
                           | (Inr result, st3) \<Rightarrow>
                               (let st4 = store_hash (ipfsRoot f) result st3 in
                                case api_ObjectPatchRmLink (fs_api srcFs) (hash (roots st4 (ipfsRoot f)))
                                       srcRelativePath st4 of
                                  (Inl err, st5) \<Rightarrow> (Some err, st5)
                                | (Inr result2, st5) \<Rightarrow> (None, store_hash (ipfsRoot f) result2 st5))))))"

text \<open>
  \<open>MergeDirs\<close>: a directory is given by its \<open>Remote()\<close>. The inner loop adds the links
  of one directory to the first one, the outer loop then removes that directory, both
  on the local variable \<open>workingRootHash\<close>.
\<close>

fun mergeLinks ::
  "'s Client \<Rightarrow> string \<Rightarrow> Link list \<Rightarrow> string \<Rightarrow> 's world \<Rightarrow> (error + string) \<times> 's world" where
  "mergeLinks a srcPath [] workingRootHash st = (Inr workingRootHash, st)"
| "mergeLinks a srcPath (link # links) workingRootHash st =
     (case api_ObjectPatchAddLink a workingRootHash (path_Join [srcPath, Link_Name link])
             (Link_Hash link) st of
        (Inl err, st1) \<Rightarrow> (Inl err, st1)
      | (Inr result, st1) \<Rightarrow> mergeLinks a srcPath links result st1)"

fun mergeEach ::
  "'s Fs \<Rightarrow> string \<Rightarrow> string list \<Rightarrow> string \<Rightarrow> 's world \<Rightarrow> (error + string) \<times> 's world" where
  "mergeEach f srcPath [] workingRootHash st = (Inr workingRootHash, st)"
| "mergeEach f srcPath (dir # dirs) workingRootHash st =
     (case api_Ls (fs_api f) (path_Join [workingRootHash, fs_root f, dir]) st of
        (Inl err, st1) \<Rightarrow> (Inl err, st1)
      | (Inr links, st1) \<Rightarrow>
          (case mergeLinks (fs_api f) srcPath links workingRootHash st1 of
             (Inl err, st2) \<Rightarrow> (Inl err, st2)
           | (Inr added, st2) \<Rightarrow>
               (case api_ObjectPatchRmLink (fs_api f) added (relativePath f dir) st2 of
                  (Inl err, st3) \<Rightarrow> (Inl err, st3)
                | (Inr result, st3) \<Rightarrow> mergeEach f srcPath dirs result st3)))"

definition MergeDirs :: "'s Fs \<Rightarrow> string list \<Rightarrow> 's world \<Rightarrow> error option \<times> 's world" where
  "MergeDirs f dirs st =
     (case checkReadOnly f st of
        Some err \<Rightarrow> (Some err, st)
      | None \<Rightarrow>
          (case dirs of
             [] \<Rightarrow> (Some (GoPanic ''index out of range''), st)
           | firstDirectory # others \<Rightarrow>
               (let srcPath = relativePath f firstDirectory in
                case mergeEach f srcPath others (hash (roots st (ipfsRoot f))) st of
                  (Inl err, st1) \<Rightarrow> (Some err, st1)
                | (Inr workingRootHash, st1) \<Rightarrow> (None, store_hash (ipfsRoot f) workingRootHash st1))))"

definition PutStream :: "'s Fs \<Rightarrow> string \<Rightarrow> string \<Rightarrow> 's world \<Rightarrow> (error + 's Object) \<times> 's world" where
  "PutStream f content srcRemote st = Put f content srcRemote st"

definition Purge :: "'s Fs \<Rightarrow> string \<Rightarrow> 's world \<Rightarrow> error option \<times> 's Fs \<times> 's world" where
  "Purge f dir st =
     (case checkReadOnly f st of
        Some err \<Rightarrow> (Some err, f, st)
      | None \<Rightarrow>
          if fs_root f = [] then
            (case emptyDirHash f st of
               (Inl err, f1, st1) \<Rightarrow> (Some err, f1, st1)
             | (Inr emptyDirHash', f1, st1) \<Rightarrow> (None, f1, store_hash (ipfsRoot f1) emptyDirHash' st1))
          else
            (case api_ObjectPatchRmLink (fs_api f) (hash (roots st (ipfsRoot f))) (fs_root f) st of
               (Inl err, st1) \<Rightarrow>
                 (if strings_Contains (Error err) ''not found'' then (Some ErrorDirNotFound, f, st1)
                  else (Some err, f, st1))
             | (Inr result, st1) \<Rightarrow> (None, f, store_hash (ipfsRoot f) result st1)))"

text \<open>
  \<open>Object.Update\<close> has a value receiver: its assignments to \<open>o.ipfsHash\<close> and \<open>o.size\<close>
  change a copy, so the call leaves nothing but its error and the state.
\<close>

definition Update :: "'s Object \<Rightarrow> string \<Rightarrow> string \<Rightarrow> 's world \<Rightarrow> error option \<times> 's world" where
  "Update o' content srcRemote st =
     (case Put (o_fs o') content srcRemote st of
        (Inl err, st1) \<Rightarrow> (Some err, st1)
      | (Inr o2, st1) \<Rightarrow> (None, st1))"

section \<open>Creation of roots and file systems\<close>





section \<open>The size formula as the specification words it\<close>

text \<open>
  The overhead of one chunk as a step function of its size, and the file size computed
  from it: below the single-chunk threshold the cumulative size minus its overhead,
  otherwise the remaining bytes minus 14 for each full chunk minus the overhead of the
  remainder chunk.
\<close>

definition claimed_overhead :: "int64 \<Rightarrow> int64" where
  "claimed_overhead n =
     (if n <s 9 then 6 else if n <s 131 then 8 else if n <s 139 then 9
      else if n <s 16388 then 11 else if n <s 16398 then 12 else 14)"

definition claimed_convertToFileSize :: "ObjectStat \<Rightarrow> int64" where
  "claimed_convertToFileSize stat =
     (if CumulativeSize stat <s MaxChunkSize + 123
      then CumulativeSize stat - claimed_overhead (CumulativeSize stat)
      else
        let remaining = CumulativeSize stat - BlockSize stat
        in remaining - 14 * int64_quo remaining (MaxChunkSize + 14)
             - claimed_overhead (int64_rem remaining (MaxChunkSize + 14)))"

text \<open>The same step function, except that an empty chunk has no overhead.\<close>

definition overhead :: "int64 \<Rightarrow> int64" where
  "overhead n = (if n = 0 then 0 else claimed_overhead n)"

section \<open>Classes of requests\<close>

definition isMFSWrite :: "call \<Rightarrow> bool" where
  "isMFSWrite c = (case c of CFilesCp x y \<Rightarrow> True | CFilesRm x \<Rightarrow> True | _ \<Rightarrow> False)"

definition isNamePublish :: "call \<Rightarrow> bool" where
  "isNamePublish c = (case c of CNamePublish h k \<Rightarrow> True | _ \<Rightarrow> False)"

text \<open>The DAG patch requests, and the failure of one of them with a given error.\<close>

definition isPatch :: "call \<Rightarrow> bool" where
  "isPatch c =
     (case c of CObjectPatchAddLink rootHash p linkHash \<Rightarrow> True
              | CObjectPatchRmLink rootHash p \<Rightarrow> True
              | _ \<Rightarrow> False)"

definition patchFailed :: "error \<Rightarrow> event list \<Rightarrow> bool" where
  "patchFailed e evs = list_ex (\<lambda>ev. isPatch (fst ev) \<and> snd ev = Some e) evs"

definition addLinkFailed :: "error \<Rightarrow> event list \<Rightarrow> bool" where
  "addLinkFailed e evs =
     list_ex (\<lambda>ev. (case fst ev of CObjectPatchAddLink rootHash p linkHash \<Rightarrow> True | _ \<Rightarrow> False) \<and>
                    snd ev = Some e) evs"

definition isPinChange :: "call \<Rightarrow> bool" where
  "isPinChange c = (case c of CPinAdd h recursive \<Rightarrow> True | CPinRm h \<Rightarrow> True | _ \<Rightarrow> False)"

text \<open>
  The later state differs from the earlier one by requests only: the heap of roots and
  the shared cache are the same.
\<close>

definition only_requests :: "'s world \<Rightarrow> 's world \<Rightarrow> bool" where
  "only_requests st st' \<longleftrightarrow> st' = st\<lparr>server := server st', trace := trace st @ calls_since st st'\<rparr>"

section \<open>The registry of shared roots\<close>



text \<open>
  The invariant of the registry: the cached addresses are allocated ones, no address is
  cached under two keys, and no root has two persistence loops.
\<close>

definition registry_ok :: "'s world \<Rightarrow> bool" where
  "registry_ok st \<longleftrightarrow>
     (\<forall>k r. sharedRoot_cache st k = Some r \<longrightarrow> r < nextRoot st) \<and>
     (\<forall>k k' r. sharedRoot_cache st k = Some r \<and> sharedRoot_cache st k' = Some r \<longrightarrow> k = k') \<and>
     distinct (persistLoops st) \<and> (\<forall>r \<in> set (persistLoops st). r < nextRoot st)"


section \<open>Concrete endpoints and states\<close>

text \<open>
  Endpoints whose state counts the requests they have answered. \<open>offline\<close> refuses
  every request.
\<close>

definition refused :: error where
  "refused = OtherError ''connection refused''"

definition offline :: "nat Client" where
  "offline =
     \<lparr>on_Add = (\<lambda>content name s. (Inl refused, Suc s)),
      on_IsReadOnly = (\<lambda>s. (Inl refused, Suc s)),
      on_Ls = (\<lambda>p s. (Inl refused, Suc s)),
      on_ObjectStat = (\<lambda>p s. (Inl refused, Suc s)),
      on_ObjectPatchAddLink = (\<lambda>rootHash p linkHash s. (Inl refused, Suc s)),
      on_ObjectPatchRmLink = (\<lambda>rootHash p s. (Inl refused, Suc s)),
      on_ObjectNewDir = (\<lambda>s. (Inl refused, Suc s)),
      on_ObjectDiff = (\<lambda>object1 object2 s. (Inl refused, Suc s)),
      on_FilesStat = (\<lambda>file s. (Inl refused, Suc s)),
      on_FilesCp = (\<lambda>from to s. (Some refused, Suc s)),
      on_FilesRm = (\<lambda>dir s. (Some refused, Suc s)),
      on_NameResolve = (\<lambda>p s. (Inl refused, Suc s)),
      on_KeyList = (\<lambda>s. (Inl refused, Suc s)),
      on_NamePublish = (\<lambda>ipfsPath key s. (Some refused, Suc s)),
      on_PinAdd = (\<lambda>h recursive s. (Some refused, Suc s)),
      on_PinRm = (\<lambda>h s. (Some refused, Suc s))\<rparr>"

definition stat_of :: "string \<Rightarrow> int64 \<Rightarrow> int64 \<Rightarrow> ObjectStat" where
  "stat_of h c b =
     \<lparr>Hash = h, NumLinks = 0, BlockSize = b, LinksSize = 0, DataSize = 0, CumulativeSize = c\<rparr>"

definition changed :: "string \<Rightarrow> string \<Rightarrow> ObjectChange" where
  "changed p h = \<lparr>Change_Type = 2, Path = p, Before = Some [''/'' \<mapsto> ''Qold''], After = Some [''/'' \<mapsto> h]\<rparr>"

text \<open>
  An endpoint that pins and unpins, whose MFS root is at \<open>Hext\<close>, and where the
  process changed \<open>a/b\<close> since \<open>H0\<close> while someone else changed \<open>a/b/c\<close>.
\<close>

definition mfs_conflict :: "nat Client" where
  "mfs_conflict =
     offline\<lparr>on_FilesStat := (\<lambda>file s. (Inr ''Hext'', Suc s)),
             on_ObjectDiff := (\<lambda>object1 object2 s.
                (Inr (if object1 = ''H0'' then [changed ''a/b'' ''Qb''] else [changed ''a/b/c'' ''Qc'']), Suc s)),
             on_PinAdd := (\<lambda>h recursive s. (None, Suc s)),
             on_PinRm := (\<lambda>h s. (None, Suc s))\<rparr>"

definition root_of :: "'s Client \<Rightarrow> string \<Rightarrow> string \<Rightarrow> 's Root" where
  "root_of a h0 h1 =
     \<lparr>api = a, opt = \<lparr>Endpoint = ''http://localhost:5001'', IpfsRoot = [], UpdatePeriod = 15000000000\<rparr>,
      lastPersistedHash = h0, hash = h1, ipnsPath = [], ipnsKey = [], isMFS = True, isReadOnly = False\<rparr>"

definition world_of :: "'s \<Rightarrow> 's Root \<Rightarrow> 's world" where
  "world_of s r =
     \<lparr>server = s, trace = [], roots = (\<lambda>a. r), nextRoot = 2, sharedRoot_locked = False,
      sharedRoot_cache = Map.empty, persistLoops = []\<rparr>"

text \<open>Endpoints that pin and unpin, and on top of that accept the write-back to MFS.\<close>

definition pins_ok :: "nat Client" where
  "pins_ok = offline\<lparr>on_PinAdd := (\<lambda>h recursive s. (None, Suc s)), on_PinRm := (\<lambda>h s. (None, Suc s))\<rparr>"

definition mfs_ok :: "nat Client" where
  "mfs_ok =
     pins_ok\<lparr>on_FilesStat := (\<lambda>file s. (Inr ''H0'', Suc s)),
             on_ObjectDiff := (\<lambda>object1 object2 s. (Inr [changed ''a/b'' ''Qb''], Suc s)),
             on_FilesCp := (\<lambda>from to s. (None, Suc s)),
             on_FilesRm := (\<lambda>dir s. (None, Suc s))\<rparr>"

definition not_pinned :: error where
  "not_pinned = ApiError ''not pinned or pinned indirectly''"

definition mfs_unpinned :: "nat Client" where
  "mfs_unpinned = mfs_ok\<lparr>on_PinRm := (\<lambda>h s. (Some not_pinned, Suc s))\<rparr>"

definition unpin_fails :: "nat Client" where
  "unpin_fails = pins_ok\<lparr>on_PinRm := (\<lambda>h s. (Some refused, Suc s))\<rparr>"

text \<open>The requests of a complete write-back of \<open>H1\<close> over \<open>H0\<close> to MFS.\<close>

definition mfs_requests :: "error option \<Rightarrow> event list" where
  "mfs_requests unpin =
     [(CPinAdd ''H1'' True, None), (CPinRm ''H0'', unpin), (CFilesStat ''/'', None),
      (CObjectDiff ''H0'' ''H1'', None), (CFilesRm ''/a/b'', None),
      (CFilesCp ''/ipfs/Qb'' ''/a/b'', None)]"

definition persisted_world :: "nat Client \<Rightarrow> error option \<Rightarrow> nat world" where
  "persisted_world a unpin =
     \<lparr>server = 6, trace = mfs_requests unpin,
      roots = (\<lambda>x. root_of a ''H0'' ''H1'')(1 := root_of a ''H1'' ''H1''), nextRoot = 2,
      sharedRoot_locked = False, sharedRoot_cache = Map.empty, persistLoops = []\<rparr>"

text \<open>A root published under the IPNS key \<open>self\<close>, and endpoints for it.\<close>

definition ipns_root_of :: "'s Client \<Rightarrow> string \<Rightarrow> string \<Rightarrow> 's Root" where
  "ipns_root_of a h0 h1 =
     \<lparr>api = a,
      opt = \<lparr>Endpoint = ''http://localhost:5001'', IpfsRoot = ''/ipns/k51'', UpdatePeriod = 15000000000\<rparr>,
      lastPersistedHash = h0, hash = h1, ipnsPath = ''/ipns/k51'', ipnsKey = ''self'',
      isMFS = False, isReadOnly = False\<rparr>"

definition ipns_ok :: "nat Client" where
  "ipns_ok =
     pins_ok\<lparr>on_NameResolve := (\<lambda>p s. (Inr ''/ipfs/H0'', Suc s)),
             on_NamePublish := (\<lambda>ipfsPath key s. (None, Suc s))\<rparr>"

definition ipns_conflict :: "nat Client" where
  "ipns_conflict = ipns_ok\<lparr>on_NameResolve := (\<lambda>p s. (Inr ''/ipfs/Hext'', Suc s))\<rparr>"

text \<open>File systems on the root at address 1, and a root that cannot be written.\<close>

definition fs_of :: "'s Client \<Rightarrow> string \<Rightarrow> 's Fs" where
  "fs_of a root =
     \<lparr>fs_name = ''remote'', fs_root = root,
      fs_opt = \<lparr>Endpoint = ''http://localhost:5001'', IpfsRoot = [], UpdatePeriod = 15000000000\<rparr>,
      fs_api = a, ipfsRoot = 1, fs_emptyDirHash = []\<rparr>"

definition readonly_root_of :: "'s Client \<Rightarrow> string \<Rightarrow> 's Root" where
  "readonly_root_of a h =
     \<lparr>api = a, opt = \<lparr>Endpoint = ''https://ipfs.io'', IpfsRoot = ''/ipfs/'' @ h, UpdatePeriod = 15000000000\<rparr>,
      lastPersistedHash = h, hash = h, ipnsPath = [], ipnsKey = [], isMFS = False, isReadOnly = True\<rparr>"

definition object_of :: "'s Fs \<Rightarrow> string \<Rightarrow> string \<Rightarrow> 's Object" where
  "object_of f remote h = \<lparr>o_fs = f, o_remote = remote, o_size = 3, o_ipfsHash = h\<rparr>"

definition readonly_fs :: "nat Fs" where
  "readonly_fs =
     (fs_of offline ''dir'')
       \<lparr>fs_opt := \<lparr>Endpoint = ''https://ipfs.io'', IpfsRoot = ''/ipfs/QmRoot'', UpdatePeriod = 15000000000\<rparr>\<rparr>"

definition readonly_error :: error where
  "readonly_error = New (''IPFS path '' @ [CHR 0x27] @ ''/ipfs/QmRoot'' @ [CHR 0x27] @ '' is read only!'')"

definition readonly_world :: "nat world" where
  "readonly_world = world_of 0 (readonly_root_of offline ''QmRoot'')"


text \<open>
  An endpoint that stores files but refuses every patch, and one on which a file can be
  linked and listed but the removal of a link fails.
\<close>

definition patch_refused :: "nat Client" where
  "patch_refused =
     offline\<lparr>on_Add := (\<lambda>content name s.
                (Inr \<lparr>FileAdded_Hash = ''QmFile'', FileAdded_Name = name, FileAdded_Size = ''3''\<rparr>, Suc s))\<rparr>"

definition no_link :: error where
  "no_link = ApiError ''no link by that name''"

definition remove_fails :: "nat Client" where
  "remove_fails =
     offline\<lparr>on_ObjectPatchAddLink := (\<lambda>rootHash p linkHash s. (Inr ''H1'', Suc s)),
             on_ObjectStat := (\<lambda>p s. (Inr (stat_of ''QmFile'' 11 11), Suc s)),
             on_Ls := (\<lambda>p s.
                (Inr [[\<lparr>Link_Hash = ''QmFile'', Link_Name = ''b.txt'', Link_Size = 11,
                        Link_Type = FileEntryTypeFile\<rparr>]], Suc s)),
             on_ObjectPatchRmLink := (\<lambda>rootHash p s. (Inl no_link, Suc s))\<rparr>"

definition copied_world :: "nat world" where
  "copied_world =
     \<lparr>server = 3,
      trace = [(CObjectPatchAddLink ''H0'' ''b.txt'' ''QmFile'', None), (CObjectStat ''H1/b.txt'', None),
               (CLs ''H1/'', None)],
      roots = (\<lambda>x. root_of remove_fails ''H0'' ''H0'')(1 := root_of remove_fails ''H0'' ''H1''),
      nextRoot = 2, sharedRoot_locked = False, sharedRoot_cache = Map.empty, persistLoops = []\<rparr>"

definition half_moved :: "nat world" where
  "half_moved =
     copied_world\<lparr>server := 4,
                  trace := trace copied_world @ [(CObjectPatchRmLink ''H1'' ''a.txt'', Some no_link)]\<rparr>"









section \<open>Properties\<close>

subsection \<open>Requests\<close>

lemma request_eq:
  "f (server st) = (r, s') \<Longrightarrow>
   request c f st = (r, st\<lparr>server := s', trace := trace st @ [(c, case r of Inl e \<Rightarrow> Some e | Inr v \<Rightarrow> None)]\<rparr>)"
  by (simp add: request_def)

lemma request_err_eq:
  "f (server st) = (r, s') \<Longrightarrow>
   request_err c f st = (r, st\<lparr>server := s', trace := trace st @ [(c, r)]\<rparr>)"
  by (simp add: request_err_def)

lemma calls_since_append [simp]:
  "calls_since st (st\<lparr>server := s, trace := trace st @ evs\<rparr>) = evs"
  by (simp add: calls_since_def)

lemma calls_since_same [simp]: "calls_since st st = []"
  by (simp add: calls_since_def)

lemmas api_defs =
  api_Add_def api_IsReadOnly_def api_ObjectStat_def api_ObjectPatchAddLink_def
  api_ObjectPatchRmLink_def api_ObjectNewDir_def api_ObjectDiff_def api_FilesStat_def
  api_FilesCp_def api_FilesRm_def api_NameResolve_def api_KeyList_def api_NamePublish_def
  api_PinAdd_def api_PinRm_def

lemma isPatch_simps [simp]:
  "isPatch (CObjectPatchAddLink rootHash p linkHash)" "isPatch (CObjectPatchRmLink rootHash p)"
  "\<not> isPatch (CAdd content name)" "\<not> isPatch CIsReadOnly" "\<not> isPatch (CLs p)"
  "\<not> isPatch (CObjectStat p)" "\<not> isPatch CObjectNewDir" "\<not> isPatch (CObjectDiff object1 object2)"
  "\<not> isPatch (CFilesStat p)" "\<not> isPatch (CFilesCp from to)" "\<not> isPatch (CFilesRm p)"
  "\<not> isPatch (CNameResolve p)" "\<not> isPatch CKeyList" "\<not> isPatch (CNamePublish h k)"
  "\<not> isPatch (CPinAdd h recursive)" "\<not> isPatch (CPinRm h)"
  by (simp_all add: isPatch_def)

text \<open>Requests leave the heap and the shared cache alone.\<close>

lemma only_requests_refl [simp]: "only_requests st st"
  by (simp add: only_requests_def calls_since_def)

lemma only_requestsI: "st' = st\<lparr>server := s, trace := trace st @ evs\<rparr> \<Longrightarrow> only_requests st st'"
  by (simp add: only_requests_def calls_since_def)

lemma only_requestsE:
  assumes "only_requests st st'"
  obtains s evs where "st' = st\<lparr>server := s, trace := trace st @ evs\<rparr>"
  using assms unfolding only_requests_def by blast

lemma only_requests_trans:
  assumes "only_requests st st1" "only_requests st1 st2"
  shows "only_requests st st2"
proof -
  from assms(1) obtain s evs where 1: "st1 = st\<lparr>server := s, trace := trace st @ evs\<rparr>"
    by (rule only_requestsE)
  from assms(2) obtain s' evs' where 2: "st2 = st1\<lparr>server := s', trace := trace st1 @ evs'\<rparr>"
    by (rule only_requestsE)
  show ?thesis
    by (rule only_requestsI [where s = s' and evs = "evs @ evs'"]) (simp add: 1 2)
qed

lemma only_requests_roots: "only_requests st st' \<Longrightarrow> roots st' = roots st"
  by (erule only_requestsE) simp

lemma request_only: "request c f st = (r, st') \<Longrightarrow> only_requests st st'"
  by (auto simp: request_def split: prod.splits intro: only_requestsI)

lemma request_err_only: "request_err c f st = (r, st') \<Longrightarrow> only_requests st st'"
  by (auto simp: request_err_def split: prod.splits intro: only_requestsI)

lemma request_only': "only_requests st (snd (request c f st))"
  by (cases "request c f st") (auto dest: request_only)

lemma request_err_only': "only_requests st (snd (request_err c f st))"
  by (cases "request_err c f st") (auto dest: request_err_only)

lemma persistChange_only': "only_requests st (snd (persistChange a change st))"
  unfolding persistChange_def Let_def api_FilesRm_def api_FilesCp_def
  by (auto intro: only_requests_trans [OF request_err_only' request_err_only'] request_err_only')

lemma persistChange_only: "persistChange a change st = (r, st') \<Longrightarrow> only_requests st st'"
  using persistChange_only' [of st a change] by simp

lemma persistChanges_only: "persistChanges a changes st = (r, st') \<Longrightarrow> only_requests st st'"
  by (induction changes arbitrary: st)
     (auto split: prod.splits option.splits dest!: persistChange_only intro: only_requests_trans)

lemma persistToMFS_only: "persistToMFS a l n st = (r, st') \<Longrightarrow> only_requests st st'"
  unfolding persistToMFS_def api_FilesStat_def api_ObjectDiff_def
  by (auto split: prod.splits sum.splits if_splits
      dest!: request_only persistChanges_only intro: only_requests_trans)

lemma persistToIPNS_only: "persistToIPNS a l n p k st = (r, st') \<Longrightarrow> only_requests st st'"
  unfolding persistToIPNS_def api_NameResolve_def api_NamePublish_def
  by (auto simp: Let_def split: prod.splits sum.splits if_splits option.splits
      dest!: request_only request_err_only intro: only_requests_trans)

lemma updatePin_only: "updatePin a l n st = (r, st') \<Longrightarrow> only_requests st st'"
  unfolding updatePin_def api_PinAdd_def api_PinRm_def
  by (auto simp: Let_def split: prod.splits sum.splits if_splits option.splits
      dest!: request_err_only intro: only_requests_trans)

lemma writeBack_only: "writeBack r st = (e, st') \<Longrightarrow> only_requests st st'"
  unfolding writeBack_def
  by (auto split: if_splits dest: persistToMFS_only persistToIPNS_only)

text \<open>Unfolding the persistence engine on a concrete endpoint.\<close>

lemma contains_eval:
  "strings_Contains s [] = True"
  "strings_Contains [] (x # xs) = False"
  "strings_Contains (y # ys) (x # xs) = (prefix (x # xs) (y # ys) \<or> strings_Contains ys (x # xs))"
  by (simp_all add: strings_Contains_def sublist_Cons_right)

lemmas eval_defs =
  persist_def updatePin_def writeBack_def persistToMFS_def persistToIPNS_def markPersisted_def
  persistChange_def request_def request_err_def api_defs listChangedPath_def
  incompatibleChanges_def strings_HasPrefix_def strings_Contains_def map_index_def Let_def

lemmas fixture_defs =
  pins_ok_def mfs_ok_def not_pinned_def mfs_unpinned_def unpin_fails_def offline_def refused_def
  world_of_def root_of_def changed_def mfs_conflict_def persisted_world_def mfs_requests_def
  ipns_root_of_def ipns_ok_def ipns_conflict_def

subsection \<open>Size conversion\<close>

lemma convertSmallFileSize_overhead: "convertSmallFileSize n = n - overhead n"
  by (simp add: convertSmallFileSize_def overhead_def claimed_overhead_def)

lemmas int64_eval =
  MaxChunkSize_def int64_quo_def int64_rem_def signed_divide_int_def signed_modulo_int_def
  word_sless_alt

text \<open>
  C5, as the claim words it, fails where a chunk is empty: a cumulative size of 0 is
  converted to 0, not to \<open>0 - 6\<close>, and a file of two full chunks (cumulative size
  \<open>2 * (MaxChunkSize + 14)\<close> above a block of 100 bytes) to \<open>2 * MaxChunkSize\<close>, not to 6
  bytes less.
\<close>

theorem convertToFileSize_counterexample:
  "convertToFileSize (stat_of ''Qm'' 0 0) = 0 \<and>
   claimed_convertToFileSize (stat_of ''Qm'' 0 0) = - 6 \<and>
   convertToFileSize (stat_of ''Qm'' (2 * (262144 + 14) + 100) 100) = 524288 \<and>
   claimed_convertToFileSize (stat_of ''Qm'' (2 * (262144 + 14) + 100) 100) = 524282"
  by (simp add: convertToFileSize_def convertSmallFileSize_def claimed_convertToFileSize_def
      claimed_overhead_def stat_of_def int64_eval)

text \<open>
  C5 (amended): for every stat input, below the single-chunk threshold
  \<open>MaxChunkSize + 123\<close> the file size is the cumulative size minus the overhead of the
  step function, where a size of 0 has overhead 0; otherwise, with
  \<open>remaining = CumulativeSize - BlockSize\<close>, it is \<open>remaining\<close> minus 14 for each full
  chunk of \<open>MaxChunkSize + 14\<close> bytes minus the same overhead of the remainder chunk.
  All arithmetic is that of \<open>int64\<close>.
\<close>

theorem convertToFileSize_formula:
  "convertToFileSize stat =
     (if CumulativeSize stat <s MaxChunkSize + 123
      then CumulativeSize stat - overhead (CumulativeSize stat)
      else
        let remaining = CumulativeSize stat - BlockSize stat
        in remaining - 14 * int64_quo remaining (MaxChunkSize + 14)
             - overhead (int64_rem remaining (MaxChunkSize + 14)))"
  by (simp add: convertToFileSize_def convertSmallFileSize_overhead Let_def)

theorem convertToFileSize_formula_witness:
  "convertToFileSize (stat_of ''Qm'' 130 130) = 122 \<and>
   convertToFileSize (stat_of ''Qm'' (262158 + 100 + 130) 100) = 262144 + 122"
  using convertToFileSize_formula [of "stat_of ''Qm'' 130 130"]
    convertToFileSize_formula [of "stat_of ''Qm'' (262158 + 100 + 130) 100"]
  by (simp add: overhead_def claimed_overhead_def stat_of_def int64_eval)

subsection \<open>Write-back to MFS\<close>

lemma incompatibleChanges_iff:
  "incompatibleChanges ext loc \<longleftrightarrow>
     (\<exists>e\<in>set ext. \<exists>l\<in>set loc. strings_HasPrefix e l \<or> strings_HasPrefix l e)"
  by (simp add: incompatibleChanges_def list_ex_iff)

lemma persistToMFS_conflict_eq:
  assumes "on_FilesStat a ''/'' (server st) = (Inr externalHash, s1)"
    and "on_ObjectDiff a lastHash newHash s1 = (Inr diff, s2)"
    and "externalHash \<noteq> lastHash"
    and "on_ObjectDiff a externalHash lastHash s2 = (Inr externalDiff, s3)"
    and "incompatibleChanges (listChangedPath externalDiff) (listChangedPath diff)"
  shows "persistToMFS a lastHash newHash st =
           (Some (New ''Error: concurrent modification of the IPFS MFS. Consistency not guaranteed.''),
            st\<lparr>server := s3,
               trace := trace st @ [(CFilesStat ''/'', None), (CObjectDiff lastHash newHash, None),
                                    (CObjectDiff externalHash lastHash, None)]\<rparr>)"
  using assms
  by (simp add: persistToMFS_def api_FilesStat_def api_ObjectDiff_def request_eq)

text \<open>
  C1: when the stat of the MFS root answers with a hash other than
  \<open>lastPersistedHash\<close>, both diffs are obtained, and a changed path of the local diff
  and a changed path of the external diff are related by prefix, then \<open>persistToMFS\<close>
  returns the concurrent-modification error after these three requests, and none of its
  requests is \<open>FilesCp\<close> or \<open>FilesRm\<close>.
\<close>

theorem persistToMFS_conflict:
  assumes "on_FilesStat a ''/'' (server st) = (Inr externalHash, s1)"
    and "on_ObjectDiff a lastHash newHash s1 = (Inr diff, s2)"
    and "externalHash \<noteq> lastHash"
    and "on_ObjectDiff a externalHash lastHash s2 = (Inr externalDiff, s3)"
    and "p \<in> set (listChangedPath diff)"
    and "q \<in> set (listChangedPath externalDiff)"
    and "strings_HasPrefix p q \<or> strings_HasPrefix q p"
  shows "persistToMFS a lastHash newHash st =
           (Some (New ''Error: concurrent modification of the IPFS MFS. Consistency not guaranteed.''),
            st\<lparr>server := s3,
               trace := trace st @ [(CFilesStat ''/'', None), (CObjectDiff lastHash newHash, None),
                                    (CObjectDiff externalHash lastHash, None)]\<rparr>)
         \<and> \<not> list_ex (\<lambda>ev. isMFSWrite (fst ev)) (calls_since st (snd (persistToMFS a lastHash newHash st)))"
proof -
  have inc: "incompatibleChanges (listChangedPath externalDiff) (listChangedPath diff)"
    using assms(5-7) unfolding incompatibleChanges_iff by blast
  note res = persistToMFS_conflict_eq [OF assms(1-4) inc]
  show ?thesis
    unfolding res by (simp add: isMFSWrite_def)
qed

theorem persistToMFS_conflict_witness:
  "persistToMFS mfs_conflict ''H0'' ''H1'' (world_of 0 (root_of mfs_conflict ''H0'' ''H1'')) =
     (Some (New ''Error: concurrent modification of the IPFS MFS. Consistency not guaranteed.''),
      (world_of 0 (root_of mfs_conflict ''H0'' ''H1''))
        \<lparr>server := 3,
         trace := [(CFilesStat ''/'', None), (CObjectDiff ''H0'' ''H1'', None),
                   (CObjectDiff ''Hext'' ''H0'', None)]\<rparr>)"
  using persistToMFS_conflict [of mfs_conflict "world_of 0 (root_of mfs_conflict ''H0'' ''H1'')"
      "''Hext''" 1 "''H0''" "''H1''" "[changed ''a/b'' ''Qb'']" 2 "[changed ''a/b/c'' ''Qc'']" 3
      "''a/b''" "''a/b/c''"]
  by (simp add: mfs_conflict_def offline_def world_of_def listChangedPath_def changed_def
      strings_HasPrefix_def)

subsection \<open>Persist without a change\<close>

text \<open>
  C2: when \<open>hash\<close> equals \<open>lastPersistedHash\<close>, \<open>persist\<close> returns at once: no request,
  no change of any state. A \<open>persist\<close> that has returned leaves the two hashes equal, so
  a second \<open>persist\<close> right after it is such a call and issues no request.
\<close>

theorem persist_noop_idempotent:
  "(hash (roots st r) = lastPersistedHash (roots st r) \<longrightarrow> persist r st = (None, st)) \<and>
   (persist r st = (None, st1) \<longrightarrow>
      persist r st1 = (None, st1) \<and> calls_since st1 (snd (persist r st1)) = [])"
proof (intro conjI impI)
  assume "hash (roots st r) = lastPersistedHash (roots st r)"
  then show "persist r st = (None, st)" by (simp add: persist_def)
next
  assume p: "persist r st = (None, st1)"
  have "hash (roots st1 r) = lastPersistedHash (roots st1 r)"
    using p by (auto simp: persist_def markPersisted_def split: if_splits prod.splits option.splits)
  then show "persist r st1 = (None, st1)" by (simp add: persist_def)
  then show "calls_since st1 (snd (persist r st1)) = []" by simp
qed

lemma persist_mfs_ok:
  "persist 1 (world_of 0 (root_of mfs_ok ''H0'' ''H1'')) = (None, persisted_world mfs_ok None)"
  by (simp add: eval_defs fixture_defs)

theorem persist_noop_idempotent_witness:
  "persist 1 (world_of 0 (root_of mfs_ok ''H1'' ''H1'')) = (None, world_of 0 (root_of mfs_ok ''H1'' ''H1'')) \<and>
   persist 1 (world_of 0 (root_of mfs_ok ''H0'' ''H1'')) = (None, persisted_world mfs_ok None) \<and>
   persist 1 (persisted_world mfs_ok None) = (None, persisted_world mfs_ok None) \<and>
   calls_since (persisted_world mfs_ok None) (snd (persist 1 (persisted_world mfs_ok None))) = []"
proof -
  have "persist 1 (world_of 0 (root_of mfs_ok ''H1'' ''H1'')) = (None, world_of 0 (root_of mfs_ok ''H1'' ''H1''))"
    using persist_noop_idempotent [of "world_of 0 (root_of mfs_ok ''H1'' ''H1'')" 1]
    by (simp add: world_of_def root_of_def)
  moreover have "persist 1 (persisted_world mfs_ok None) = (None, persisted_world mfs_ok None) \<and>
      calls_since (persisted_world mfs_ok None) (snd (persist 1 (persisted_world mfs_ok None))) = []"
    using persist_noop_idempotent [of "world_of 0 (root_of mfs_ok ''H0'' ''H1'')" 1 "persisted_world mfs_ok None"]
      persist_mfs_ok
    by blast
  ultimately show ?thesis using persist_mfs_ok by blast
qed

subsection \<open>Pins\<close>

lemma updatePin_PinAdd_fails:
  "on_PinAdd a h1 True (server st) = (Some e, s1) \<Longrightarrow>
   updatePin a h0 h1 st =
     (Some (Wrap e ''could not pin hash on IPFS endpoint. Consistency not guaranteed.''),
      st\<lparr>server := s1, trace := trace st @ [(CPinAdd h1 True, Some e)]\<rparr>)"
  by (simp add: updatePin_def api_PinAdd_def request_err_eq)

lemma updatePin_PinRm_fails:
  "on_PinAdd a h1 True (server st) = (None, s1) \<Longrightarrow> on_PinRm a h0 s1 = (Some e, s2) \<Longrightarrow>
   \<not> strings_Contains (Error e) ''not pinned'' \<Longrightarrow>
   updatePin a h0 h1 st =
     (Some (Wrap e (''could not un-pin old hash '' @ [CHR 0x27] @ h0 @ [CHR 0x27] @ ''.'')),
      st\<lparr>server := s2, trace := trace st @ [(CPinAdd h1 True, None), (CPinRm h0, Some e)]\<rparr>)"
  by (simp add: updatePin_def api_PinAdd_def api_PinRm_def request_err_eq)

lemma updatePin_succeeds:
  "on_PinAdd a h1 True (server st) = (None, s1) \<Longrightarrow> on_PinRm a h0 s1 = (eo, s2) \<Longrightarrow>
   (case eo of None \<Rightarrow> True | Some e \<Rightarrow> strings_Contains (Error e) ''not pinned'') \<Longrightarrow>
   updatePin a h0 h1 st =
     (None, st\<lparr>server := s2, trace := trace st @ [(CPinAdd h1 True, None), (CPinRm h0, eo)]\<rparr>)"
  by (cases eo) (simp_all add: updatePin_def api_PinAdd_def api_PinRm_def request_err_eq)

text \<open>A successful \<open>updatePin\<close> has issued exactly the pin and then the unpin.\<close>

lemma updatePin_None:
  assumes "updatePin a h0 h1 st = (None, st1)"
  shows "\<exists>s eo. st1 = st\<lparr>server := s, trace := trace st @ [(CPinAdd h1 True, None), (CPinRm h0, eo)]\<rparr>"
proof -
  obtain r1 s1 where 1: "on_PinAdd a h1 True (server st) = (r1, s1)"
    by (cases "on_PinAdd a h1 True (server st)")
  obtain r2 s2 where 2: "on_PinRm a h0 s1 = (r2, s2)"
    by (cases "on_PinRm a h0 s1")
  from assms 1 have r1: "r1 = None"
    by (cases r1) (simp_all add: updatePin_PinAdd_fails)
  have "st1 = st\<lparr>server := s2, trace := trace st @ [(CPinAdd h1 True, None), (CPinRm h0, r2)]\<rparr>"
    using assms 1 2 r1
    by (cases r2)
       (auto simp add: updatePin_def api_PinAdd_def api_PinRm_def request_err_eq Let_def split: if_splits)
  then show ?thesis by blast
qed

text \<open>
  C3: a \<open>persist\<close> of the transition from \<open>h0 = lastPersistedHash\<close> to \<open>h1 = hash\<close> first
  sends \<open>PinAdd h1\<close> (recursive) and, only after its success, \<open>PinRm h0\<close>. A failed
  \<open>PinAdd\<close>, and a failed \<open>PinRm\<close> whose text does not contain \<open>not pinned\<close>, end the
  persist with the wrapped error, no further request is made and \<open>lastPersistedHash\<close>
  stays \<open>h0\<close>. A \<open>PinRm\<close> that succeeds or fails with \<open>not pinned\<close> in its text makes
  \<open>updatePin\<close> succeed, and \<open>persist\<close> goes on with the write-back: when that
  returns no error, \<open>persist\<close> returns and marks the hash as persisted.
\<close>

theorem persist_pin_reconciliation:
  assumes "hash (roots st r) \<noteq> lastPersistedHash (roots st r)"
    and "a = api (roots st r)" and "h0 = lastPersistedHash (roots st r)" and "h1 = hash (roots st r)"
  shows "(\<forall>e s1. on_PinAdd a h1 True (server st) = (Some e, s1) \<longrightarrow>
            persist r st =
              (Some (Wrap e ''could not pin hash on IPFS endpoint. Consistency not guaranteed.''),
               st\<lparr>server := s1, trace := trace st @ [(CPinAdd h1 True, Some e)]\<rparr>) \<and>
            lastPersistedHash (roots (snd (persist r st)) r) = h0) \<and>
         (\<forall>e s1 s2. on_PinAdd a h1 True (server st) = (None, s1) \<and> on_PinRm a h0 s1 = (Some e, s2) \<and>
            \<not> strings_Contains (Error e) ''not pinned'' \<longrightarrow>
            persist r st =
              (Some (Wrap e (''could not un-pin old hash '' @ [CHR 0x27] @ h0 @ [CHR 0x27] @ ''.'')),
               st\<lparr>server := s2, trace := trace st @ [(CPinAdd h1 True, None), (CPinRm h0, Some e)]\<rparr>) \<and>
            lastPersistedHash (roots (snd (persist r st)) r) = h0) \<and>
         (\<forall>eo s1 s2 st1. on_PinAdd a h1 True (server st) = (None, s1) \<and> on_PinRm a h0 s1 = (eo, s2) \<and>
            (case eo of None \<Rightarrow> True | Some e \<Rightarrow> strings_Contains (Error e) ''not pinned'') \<and>
            st1 = st\<lparr>server := s2, trace := trace st @ [(CPinAdd h1 True, None), (CPinRm h0, eo)]\<rparr> \<longrightarrow>
            updatePin a h0 h1 st = (None, st1) \<and>
            persist r st =
              (case writeBack r st1 of
                 (Some err, st2) \<Rightarrow> (Some err, st2)
               | (None, st2) \<Rightarrow> (None, markPersisted r st2)) \<and>
            take 2 (calls_since st (snd (persist r st))) = [(CPinAdd h1 True, None), (CPinRm h0, eo)])"
proof (intro conjI allI impI)
  fix e s1
  assume "on_PinAdd a h1 True (server st) = (Some e, s1)"
  then show p: "persist r st =
              (Some (Wrap e ''could not pin hash on IPFS endpoint. Consistency not guaranteed.''),
               st\<lparr>server := s1, trace := trace st @ [(CPinAdd h1 True, Some e)]\<rparr>)"
    using assms by (simp add: persist_def updatePin_PinAdd_fails)
  show "lastPersistedHash (roots (snd (persist r st)) r) = h0"
    unfolding p using assms by simp
next
  fix e s1 s2
  assume "on_PinAdd a h1 True (server st) = (None, s1) \<and> on_PinRm a h0 s1 = (Some e, s2) \<and>
            \<not> strings_Contains (Error e) ''not pinned''"
  then show p: "persist r st =
              (Some (Wrap e (''could not un-pin old hash '' @ [CHR 0x27] @ h0 @ [CHR 0x27] @ ''.'')),
               st\<lparr>server := s2, trace := trace st @ [(CPinAdd h1 True, None), (CPinRm h0, Some e)]\<rparr>)"
    using assms by (simp add: persist_def updatePin_PinRm_fails)
  show "lastPersistedHash (roots (snd (persist r st)) r) = h0"
    unfolding p using assms by simp
next
  fix eo s1 s2 st1
  assume h: "on_PinAdd a h1 True (server st) = (None, s1) \<and> on_PinRm a h0 s1 = (eo, s2) \<and>
            (case eo of None \<Rightarrow> True | Some e \<Rightarrow> strings_Contains (Error e) ''not pinned'') \<and>
            st1 = st\<lparr>server := s2, trace := trace st @ [(CPinAdd h1 True, None), (CPinRm h0, eo)]\<rparr>"
  then show up: "updatePin a h0 h1 st = (None, st1)"
    using updatePin_succeeds [of a h1 st s1 h0 eo s2] by simp
  then show p: "persist r st =
              (case writeBack r st1 of
                 (Some err, st2) \<Rightarrow> (Some err, st2)
               | (None, st2) \<Rightarrow> (None, markPersisted r st2))"
    using assms by (simp add: persist_def)
  obtain err st2 where wb: "writeBack r st1 = (err, st2)" by (cases "writeBack r st1")
  then have "only_requests st1 st2" by (rule writeBack_only)
  then obtain s evs where st2: "st2 = st1\<lparr>server := s, trace := trace st1 @ evs\<rparr>"
    by (rule only_requestsE)
  have "trace (snd (persist r st)) = trace st2"
    unfolding p wb by (cases err) (simp_all add: markPersisted_def)
  then show "take 2 (calls_since st (snd (persist r st))) = [(CPinAdd h1 True, None), (CPinRm h0, eo)]"
    using h st2 by (simp add: calls_since_def)
qed


theorem persist_pin_reconciliation_witness:
  "persist 1 (world_of 0 (root_of offline ''H0'' ''H1'')) =
     (Some (Wrap refused ''could not pin hash on IPFS endpoint. Consistency not guaranteed.''),
      (world_of 0 (root_of offline ''H0'' ''H1''))\<lparr>server := 1, trace := [(CPinAdd ''H1'' True, Some refused)]\<rparr>) \<and>
   persist 1 (world_of 0 (root_of unpin_fails ''H0'' ''H1'')) =
     (Some (Wrap refused (''could not un-pin old hash '' @ [CHR 0x27] @ ''H0'' @ [CHR 0x27] @ ''.'')),
      (world_of 0 (root_of unpin_fails ''H0'' ''H1''))
        \<lparr>server := 2, trace := [(CPinAdd ''H1'' True, None), (CPinRm ''H0'', Some refused)]\<rparr>) \<and>
   persist 1 (world_of 0 (root_of mfs_unpinned ''H0'' ''H1'')) =
     (None, persisted_world mfs_unpinned (Some not_pinned))"
proof -
  have ne: "hash (roots (world_of 0 (root_of a ''H0'' ''H1'')) 1) \<noteq>
      lastPersistedHash (roots (world_of 0 (root_of a ''H0'' ''H1'')) 1)" for a :: "nat Client"
    by (simp add: world_of_def root_of_def)
  note T = persist_pin_reconciliation [OF ne refl refl refl]
  have 1: "persist 1 (world_of 0 (root_of offline ''H0'' ''H1'')) =
     (Some (Wrap refused ''could not pin hash on IPFS endpoint. Consistency not guaranteed.''),
      (world_of 0 (root_of offline ''H0'' ''H1''))\<lparr>server := 1, trace := [(CPinAdd ''H1'' True, Some refused)]\<rparr>)"
    using T [of offline, THEN conjunct1, rule_format, of refused 1]
    by (simp add: world_of_def root_of_def offline_def)
  have 2: "persist 1 (world_of 0 (root_of unpin_fails ''H0'' ''H1'')) =
     (Some (Wrap refused (''could not un-pin old hash '' @ [CHR 0x27] @ ''H0'' @ [CHR 0x27] @ ''.'')),
      (world_of 0 (root_of unpin_fails ''H0'' ''H1''))
        \<lparr>server := 2, trace := [(CPinAdd ''H1'' True, None), (CPinRm ''H0'', Some refused)]\<rparr>)"
    using T [of unpin_fails, THEN conjunct2, THEN conjunct1, rule_format, of 1 refused 2]
    by (simp add: world_of_def root_of_def unpin_fails_def pins_ok_def offline_def refused_def contains_eval)
  have 3: "persist 1 (world_of 0 (root_of mfs_unpinned ''H0'' ''H1'')) =
     (None, persisted_world mfs_unpinned (Some not_pinned))"
    using T [of mfs_unpinned, THEN conjunct2, THEN conjunct2, rule_format, of 1 "Some not_pinned" 2,
        THEN conjunct2, THEN conjunct1]
    by (simp add: fixture_defs eval_defs contains_eval)
  from 1 2 3 show ?thesis by blast
qed

subsection \<open>Write-back to IPNS\<close>

lemma persistToIPNS_conflict_eq:
  "on_NameResolve a ipnsPath' (server st) = (Inr p, s1) \<Longrightarrow> snd (path_Split p) \<noteq> lastHash \<Longrightarrow>
   persistToIPNS a lastHash newHash ipnsPath' key st =
     (Some (New ''concurrent modification of the IPFS IPNS. Consistency not guaranteed.''),
      st\<lparr>server := s1, trace := trace st @ [(CNameResolve ipnsPath', None)]\<rparr>)"
  by (auto simp add: persistToIPNS_def api_NameResolve_def request_eq)

lemma persistToIPNS_resolve_fails:
  "on_NameResolve a ipnsPath' (server st) = (Inl e, s1) \<Longrightarrow>
   snd (persistToIPNS a lastHash newHash ipnsPath' key st) =
      st\<lparr>server := s1, trace := trace st @ [(CNameResolve ipnsPath', Some e)]\<rparr>"
  by (simp add: persistToIPNS_def api_NameResolve_def request_eq)

lemma persistToIPNS_publish:
  "on_NameResolve a ipnsPath' (server st) = (Inr p, s1) \<Longrightarrow> snd (path_Split p) = lastHash \<Longrightarrow>
   on_NamePublish a newHash key s1 = (eo, s2) \<Longrightarrow>
   persistToIPNS a lastHash newHash ipnsPath' key st =
     (case eo of
        Some err \<Rightarrow> Some (Wrap err (''could not update IPNS path '' @ [CHR 0x27] @ ipnsPath' @ [CHR 0x27]))
      | None \<Rightarrow> None,
      st\<lparr>server := s2,
         trace := trace st @ [(CNameResolve ipnsPath', None), (CNamePublish newHash key, eo)]\<rparr>)"
  by (cases eo)
     (auto simp add: persistToIPNS_def api_NameResolve_def api_NamePublish_def request_eq request_err_eq)

text \<open>
  C4: when the IPNS path resolves to a path whose hash (its last element) is not
  \<open>lastPersistedHash\<close>, \<open>persistToIPNS\<close> returns the concurrent-modification error and
  its only request is the \<open>NameResolve\<close>. A \<open>NamePublish\<close> among its requests means that
  the path resolved to \<open>lastPersistedHash\<close>; and when it does resolve to it, the new hash
  is published under the key.
\<close>

theorem persistToIPNS_conflict:
  "(\<forall>p s1. on_NameResolve a ipnsPath' (server st) = (Inr p, s1) \<and> snd (path_Split p) \<noteq> lastHash \<longrightarrow>
      persistToIPNS a lastHash newHash ipnsPath' key st =
        (Some (New ''concurrent modification of the IPFS IPNS. Consistency not guaranteed.''),
         st\<lparr>server := s1, trace := trace st @ [(CNameResolve ipnsPath', None)]\<rparr>)) \<and>
   (list_ex (\<lambda>ev. isNamePublish (fst ev))
        (calls_since st (snd (persistToIPNS a lastHash newHash ipnsPath' key st))) \<longrightarrow>
      (\<exists>p s1. on_NameResolve a ipnsPath' (server st) = (Inr p, s1) \<and> snd (path_Split p) = lastHash)) \<and>
   (\<forall>p s1. on_NameResolve a ipnsPath' (server st) = (Inr p, s1) \<and> snd (path_Split p) = lastHash \<longrightarrow>
      (\<exists>eo. calls_since st (snd (persistToIPNS a lastHash newHash ipnsPath' key st)) =
               [(CNameResolve ipnsPath', None), (CNamePublish newHash key, eo)]))"
proof (intro conjI allI impI)
  fix p s1
  assume "on_NameResolve a ipnsPath' (server st) = (Inr p, s1) \<and> snd (path_Split p) \<noteq> lastHash"
  then show "persistToIPNS a lastHash newHash ipnsPath' key st =
        (Some (New ''concurrent modification of the IPFS IPNS. Consistency not guaranteed.''),
         st\<lparr>server := s1, trace := trace st @ [(CNameResolve ipnsPath', None)]\<rparr>)"
    by (simp add: persistToIPNS_conflict_eq)
next
  assume pub: "list_ex (\<lambda>ev. isNamePublish (fst ev))
      (calls_since st (snd (persistToIPNS a lastHash newHash ipnsPath' key st)))"
  obtain res s1 where res: "on_NameResolve a ipnsPath' (server st) = (res, s1)"
    by (cases "on_NameResolve a ipnsPath' (server st)")
  show "\<exists>p s1. on_NameResolve a ipnsPath' (server st) = (Inr p, s1) \<and> snd (path_Split p) = lastHash"
  proof (cases res)
    case (Inl e)
    with res pub show ?thesis
      by (simp add: persistToIPNS_resolve_fails isNamePublish_def)
  next
    case (Inr p)
    show ?thesis
    proof (cases "snd (path_Split p) = lastHash")
      case True
      with res Inr show ?thesis by blast
    next
      case False
      with res Inr pub show ?thesis
        by (simp add: persistToIPNS_conflict_eq isNamePublish_def)
    qed
  qed
next
  fix p s1
  assume h: "on_NameResolve a ipnsPath' (server st) = (Inr p, s1) \<and> snd (path_Split p) = lastHash"
  obtain eo s2 where "on_NamePublish a newHash key s1 = (eo, s2)"
    by (cases "on_NamePublish a newHash key s1")
  with h have "calls_since st (snd (persistToIPNS a lastHash newHash ipnsPath' key st)) =
               [(CNameResolve ipnsPath', None), (CNamePublish newHash key, eo)]"
    by (simp add: persistToIPNS_publish)
  then show "\<exists>eo. calls_since st (snd (persistToIPNS a lastHash newHash ipnsPath' key st)) =
               [(CNameResolve ipnsPath', None), (CNamePublish newHash key, eo)]" ..
qed

theorem persistToIPNS_conflict_witness:
  "persistToIPNS ipns_conflict ''H0'' ''H1'' ''/ipns/k51'' ''self''
       (world_of 0 (ipns_root_of ipns_conflict ''H0'' ''H1'')) =
     (Some (New ''concurrent modification of the IPFS IPNS. Consistency not guaranteed.''),
      (world_of 0 (ipns_root_of ipns_conflict ''H0'' ''H1''))
        \<lparr>server := 1, trace := [(CNameResolve ''/ipns/k51'', None)]\<rparr>) \<and>
   calls_since (world_of 0 (ipns_root_of ipns_ok ''H0'' ''H1''))
       (snd (persistToIPNS ipns_ok ''H0'' ''H1'' ''/ipns/k51'' ''self''
               (world_of 0 (ipns_root_of ipns_ok ''H0'' ''H1'')))) =
     [(CNameResolve ''/ipns/k51'', None), (CNamePublish ''H1'' ''self'', None)]"
proof -
  have 1: "persistToIPNS ipns_conflict ''H0'' ''H1'' ''/ipns/k51'' ''self''
       (world_of 0 (ipns_root_of ipns_conflict ''H0'' ''H1'')) =
     (Some (New ''concurrent modification of the IPFS IPNS. Consistency not guaranteed.''),
      (world_of 0 (ipns_root_of ipns_conflict ''H0'' ''H1''))
        \<lparr>server := 1, trace := [(CNameResolve ''/ipns/k51'', None)]\<rparr>)"
    using persistToIPNS_conflict [of ipns_conflict "''/ipns/k51''"
        "world_of 0 (ipns_root_of ipns_conflict ''H0'' ''H1'')" "''H0''" "''H1''" "''self''",
        THEN conjunct1, rule_format, of "''/ipfs/Hext''" 1]
    by (simp add: fixture_defs path_Split_def)
  have "\<exists>eo. calls_since (world_of 0 (ipns_root_of ipns_ok ''H0'' ''H1''))
       (snd (persistToIPNS ipns_ok ''H0'' ''H1'' ''/ipns/k51'' ''self''
               (world_of 0 (ipns_root_of ipns_ok ''H0'' ''H1'')))) =
     [(CNameResolve ''/ipns/k51'', None), (CNamePublish ''H1'' ''self'', eo)]"
    using persistToIPNS_conflict [of ipns_ok "''/ipns/k51''"
        "world_of 0 (ipns_root_of ipns_ok ''H0'' ''H1'')" "''H0''" "''H1''" "''self''",
        THEN conjunct2, THEN conjunct2, rule_format, of "''/ipfs/H0''" 1]
    by (simp add: fixture_defs path_Split_def)
  then have 2: "calls_since (world_of 0 (ipns_root_of ipns_ok ''H0'' ''H1''))
       (snd (persistToIPNS ipns_ok ''H0'' ''H1'' ''/ipns/k51'' ''self''
               (world_of 0 (ipns_root_of ipns_ok ''H0'' ''H1'')))) =
     [(CNameResolve ''/ipns/k51'', None), (CNamePublish ''H1'' ''self'', None)]"
    by (simp add: eval_defs fixture_defs path_Split_def calls_since_def)
  from 1 2 show ?thesis by blast
qed

subsection \<open>A conflict found by the write-back\<close>

lemma persist_after_updatePin:
  assumes "hash (roots st r) \<noteq> lastPersistedHash (roots st r)"
    and "updatePin (api (roots st r)) (lastPersistedHash (roots st r)) (hash (roots st r)) st = (None, st1)"
    and "writeBack r st1 = (Some e, st2)"
  shows "persist r st = (Some e, st2)"
  using assms by (simp add: persist_def)

lemma writeBack_MFS_conflict:
  assumes "isMFS (roots st r)"
    and "on_FilesStat (api (roots st r)) ''/'' (server st) = (Inr externalHash, s1)"
    and "on_ObjectDiff (api (roots st r)) (lastPersistedHash (roots st r)) (hash (roots st r)) s1 = (Inr diff, s2)"
    and "externalHash \<noteq> lastPersistedHash (roots st r)"
    and "on_ObjectDiff (api (roots st r)) externalHash (lastPersistedHash (roots st r)) s2 = (Inr externalDiff, s3)"
    and "incompatibleChanges (listChangedPath externalDiff) (listChangedPath diff)"
  shows "writeBack r st =
           (Some (New ''Error: concurrent modification of the IPFS MFS. Consistency not guaranteed.''),
            st\<lparr>server := s3,
               trace := trace st @ [(CFilesStat ''/'', None),
                  (CObjectDiff (lastPersistedHash (roots st r)) (hash (roots st r)), None),
                  (CObjectDiff externalHash (lastPersistedHash (roots st r)), None)]\<rparr>)"
  using assms(1) persistToMFS_conflict_eq [OF assms(2-6)] by (simp add: writeBack_def)

lemma writeBack_IPNS_conflict:
  assumes "\<not> isMFS (roots st r)" and "ipnsKey (roots st r) \<noteq> []"
    and "on_NameResolve (api (roots st r)) (ipnsPath (roots st r)) (server st) = (Inr p, s1)"
    and "snd (path_Split p) \<noteq> lastPersistedHash (roots st r)"
  shows "writeBack r st =
           (Some (New ''concurrent modification of the IPFS IPNS. Consistency not guaranteed.''),
            st\<lparr>server := s1, trace := trace st @ [(CNameResolve (ipnsPath (roots st r)), None)]\<rparr>)"
  using assms(1,2) persistToIPNS_conflict_eq [OF assms(3,4)] by (simp add: writeBack_def)

lemma persist_first_request:
  assumes "hash (roots st r) \<noteq> lastPersistedHash (roots st r)"
  shows "\<exists>e rest. calls_since st (snd (persist r st)) = (CPinAdd (hash (roots st r)) True, e) # rest"
proof -
  let ?a = "api (roots st r)" and ?h0 = "lastPersistedHash (roots st r)" and ?h1 = "hash (roots st r)"
  obtain r1 s1 where 1: "on_PinAdd ?a ?h1 True (server st) = (r1, s1)"
    by (cases "on_PinAdd ?a ?h1 True (server st)")
  obtain up st1 where up: "updatePin ?a ?h0 ?h1 st = (up, st1)"
    by (cases "updatePin ?a ?h0 ?h1 st")
  show ?thesis
  proof (cases up)
    case (Some err)
    then have p: "persist r st = (Some err, st1)" using assms up by (simp add: persist_def)
    show ?thesis
    proof (cases r1)
      case None
      obtain r2 s2 where 2: "on_PinRm ?a ?h0 s1 = (r2, s2)" by (cases "on_PinRm ?a ?h0 s1")
      have "st1 = st\<lparr>server := s2, trace := trace st @ [(CPinAdd ?h1 True, None), (CPinRm ?h0, r2)]\<rparr>"
        using up 1 2 None
        by (cases r2)
           (auto simp add: updatePin_def api_PinAdd_def api_PinRm_def request_err_eq Let_def split: if_splits)
      then show ?thesis unfolding p by simp
    next
      case (Some e)
      with up 1 have "st1 = st\<lparr>server := s1, trace := trace st @ [(CPinAdd ?h1 True, Some e)]\<rparr>"
        by (simp add: updatePin_PinAdd_fails)
      then show ?thesis unfolding p by simp
    qed
  next
    case None
    with up obtain s eo where st1: "st1 = st\<lparr>server := s, trace := trace st @ [(CPinAdd ?h1 True, None), (CPinRm ?h0, eo)]\<rparr>"
      using updatePin_None by blast
    obtain wb st2 where wb: "writeBack r st1 = (wb, st2)" by (cases "writeBack r st1")
    then have "only_requests st1 st2" by (rule writeBack_only)
    then obtain s' evs where st2: "st2 = st1\<lparr>server := s', trace := trace st1 @ evs\<rparr>"
      by (rule only_requestsE)
    have "trace (snd (persist r st)) = trace st2"
      using assms up None wb by (cases wb) (simp_all add: persist_def markPersisted_def)
    then show ?thesis using st1 st2 by (simp add: calls_since_def)
  qed
qed

text \<open>
  C8 (amended): when the pins have been swapped and the write-back then finds an
  external modification (of MFS: the stat of the root differs from \<open>lastPersistedHash\<close>
  and the two diffs have incompatible changes; of IPNS: the name resolves to another
  hash), \<open>persist\<close> ends in a panic with the concurrent-modification error. The roots
  are as before, so \<open>hash\<close> and \<open>lastPersistedHash\<close> are unchanged and still differ;
  no \<open>FilesCp\<close>, \<open>FilesRm\<close> or \<open>NamePublish\<close> was sent; the requests of the attempt
  start with the successful \<open>PinAdd\<close> of the new hash and the \<open>PinRm\<close> of the old one;
  and a next \<open>persist\<close> is a new attempt that starts with \<open>PinAdd\<close> again.
\<close>

theorem persist_conflict_aborts:
  assumes ne: "hash (roots st r) \<noteq> lastPersistedHash (roots st r)"
    and "a = api (roots st r)" and "h0 = lastPersistedHash (roots st r)" and "h1 = hash (roots st r)"
    and up: "updatePin a h0 h1 st = (None, st1)"
    and conflict:
      "(isMFS (roots st r) \<and>
        on_FilesStat a ''/'' (server st1) = (Inr externalHash, s1) \<and>
        on_ObjectDiff a h0 h1 s1 = (Inr diff, s2) \<and> externalHash \<noteq> h0 \<and>
        on_ObjectDiff a externalHash h0 s2 = (Inr externalDiff, s3) \<and>
        incompatibleChanges (listChangedPath externalDiff) (listChangedPath diff) \<and>
        e = New ''Error: concurrent modification of the IPFS MFS. Consistency not guaranteed.'' \<and>
        st2 = st1\<lparr>server := s3,
                  trace := trace st1 @ [(CFilesStat ''/'', None), (CObjectDiff h0 h1, None),
                                        (CObjectDiff externalHash h0, None)]\<rparr>)
       \<or>
       (\<not> isMFS (roots st r) \<and> ipnsKey (roots st r) \<noteq> [] \<and>
        on_NameResolve a (ipnsPath (roots st r)) (server st1) = (Inr p, s1) \<and>
        snd (path_Split p) \<noteq> h0 \<and>
        e = New ''concurrent modification of the IPFS IPNS. Consistency not guaranteed.'' \<and>
        st2 = st1\<lparr>server := s1, trace := trace st1 @ [(CNameResolve (ipnsPath (roots st r)), None)]\<rparr>)"
  shows "persist r st = (Some e, st2) \<and>
         roots st2 = roots st \<and>
         hash (roots st2 r) = h1 \<and> lastPersistedHash (roots st2 r) = h0 \<and>
         \<not> list_ex (\<lambda>ev. isMFSWrite (fst ev) \<or> isNamePublish (fst ev)) (calls_since st st2) \<and>
         (\<exists>eo. take 2 (calls_since st st2) = [(CPinAdd h1 True, None), (CPinRm h0, eo)]) \<and>
         (\<exists>e' rest. calls_since st2 (snd (persist r st2)) = (CPinAdd h1 True, e') # rest)"
proof -
  from up obtain s eo where st1: "st1 = st\<lparr>server := s, trace := trace st @ [(CPinAdd h1 True, None), (CPinRm h0, eo)]\<rparr>"
    using updatePin_None by blast
  have r1: "roots st1 = roots st" by (simp add: st1)
  have wb: "writeBack r st1 = (Some e, st2)"
    using conflict
  proof
    assume c: "isMFS (roots st r) \<and>
        on_FilesStat a ''/'' (server st1) = (Inr externalHash, s1) \<and>
        on_ObjectDiff a h0 h1 s1 = (Inr diff, s2) \<and> externalHash \<noteq> h0 \<and>
        on_ObjectDiff a externalHash h0 s2 = (Inr externalDiff, s3) \<and>
        incompatibleChanges (listChangedPath externalDiff) (listChangedPath diff) \<and>
        e = New ''Error: concurrent modification of the IPFS MFS. Consistency not guaranteed.'' \<and>
        st2 = st1\<lparr>server := s3,
                  trace := trace st1 @ [(CFilesStat ''/'', None), (CObjectDiff h0 h1, None),
                                        (CObjectDiff externalHash h0, None)]\<rparr>"
    show ?thesis
      using writeBack_MFS_conflict [of st1 r externalHash s1 diff s2 externalDiff s3] c assms(2-4) r1
      by simp
  next
    assume c: "\<not> isMFS (roots st r) \<and> ipnsKey (roots st r) \<noteq> [] \<and>
        on_NameResolve a (ipnsPath (roots st r)) (server st1) = (Inr p, s1) \<and>
        snd (path_Split p) \<noteq> h0 \<and>
        e = New ''concurrent modification of the IPFS IPNS. Consistency not guaranteed.'' \<and>
        st2 = st1\<lparr>server := s1, trace := trace st1 @ [(CNameResolve (ipnsPath (roots st r)), None)]\<rparr>"
    show ?thesis
      using writeBack_IPNS_conflict [of st1 r p s1] c assms(2-4) r1
      by simp
  qed
  have p: "persist r st = (Some e, st2)"
    using ne up wb assms(2-4) by (simp add: persist_after_updatePin)
  have r2: "roots st2 = roots st"
    using conflict r1 by auto
  have calls: "\<exists>evs. calls_since st st2 = [(CPinAdd h1 True, None), (CPinRm h0, eo)] @ evs \<and>
      \<not> list_ex (\<lambda>ev. isMFSWrite (fst ev) \<or> isNamePublish (fst ev)) evs"
    using conflict st1 by (auto simp: calls_since_def isMFSWrite_def isNamePublish_def)
  have ne2: "hash (roots st2 r) \<noteq> lastPersistedHash (roots st2 r)"
    using ne r2 by simp
  have again: "\<exists>e' rest. calls_since st2 (snd (persist r st2)) = (CPinAdd h1 True, e') # rest"
    using persist_first_request [OF ne2] r2 assms(4) by simp
  from calls have nowrite: "\<not> list_ex (\<lambda>ev. isMFSWrite (fst ev) \<or> isNamePublish (fst ev)) (calls_since st st2)"
    by (auto simp: isMFSWrite_def isNamePublish_def)
  from calls have first2: "\<exists>eo. take 2 (calls_since st st2) = [(CPinAdd h1 True, None), (CPinRm h0, eo)]"
    by auto
  show ?thesis
    using p r2 assms(3,4) nowrite first2 again by simp
qed

text \<open>
  C8, as the claim words it, fails: the persist that is aborted by the conflict has
  been applied in part. On an endpoint whose MFS was changed by someone else, the new
  hash is pinned and the old hash unpinned, both with success, before the conflict is
  found and the persist ends in the panic.
\<close>

theorem persist_conflict_counterexample:
  "persist 1 (world_of 0 (root_of mfs_conflict ''H0'' ''H1'')) =
     (Some (New ''Error: concurrent modification of the IPFS MFS. Consistency not guaranteed.''),
      (world_of 0 (root_of mfs_conflict ''H0'' ''H1''))
        \<lparr>server := 5,
         trace := [(CPinAdd ''H1'' True, None), (CPinRm ''H0'', None), (CFilesStat ''/'', None),
                   (CObjectDiff ''H0'' ''H1'', None), (CObjectDiff ''Hext'' ''H0'', None)]\<rparr>) \<and>
   list_ex (\<lambda>ev. isPinChange (fst ev) \<and> snd ev = None)
     (calls_since (world_of 0 (root_of mfs_conflict ''H0'' ''H1''))
        (snd (persist 1 (world_of 0 (root_of mfs_conflict ''H0'' ''H1'')))))"
  by (simp add: eval_defs fixture_defs isPinChange_def calls_since_def)

theorem persist_conflict_aborts_witness:
  "persist 1 (world_of 0 (root_of mfs_conflict ''H0'' ''H1'')) =
     (Some (New ''Error: concurrent modification of the IPFS MFS. Consistency not guaranteed.''),
      (world_of 0 (root_of mfs_conflict ''H0'' ''H1''))
        \<lparr>server := 5,
         trace := [(CPinAdd ''H1'' True, None), (CPinRm ''H0'', None), (CFilesStat ''/'', None),
                   (CObjectDiff ''H0'' ''H1'', None), (CObjectDiff ''Hext'' ''H0'', None)]\<rparr>) \<and>
   persist 1 (world_of 0 (ipns_root_of ipns_conflict ''H0'' ''H1'')) =
     (Some (New ''concurrent modification of the IPFS IPNS. Consistency not guaranteed.''),
      (world_of 0 (ipns_root_of ipns_conflict ''H0'' ''H1''))
        \<lparr>server := 3,
         trace := [(CPinAdd ''H1'' True, None), (CPinRm ''H0'', None),
                   (CNameResolve ''/ipns/k51'', None)]\<rparr>)"
proof -
  have 1: "persist 1 (world_of 0 (root_of mfs_conflict ''H0'' ''H1'')) =
     (Some (New ''Error: concurrent modification of the IPFS MFS. Consistency not guaranteed.''),
      (world_of 0 (root_of mfs_conflict ''H0'' ''H1''))
        \<lparr>server := 5,
         trace := [(CPinAdd ''H1'' True, None), (CPinRm ''H0'', None), (CFilesStat ''/'', None),
                   (CObjectDiff ''H0'' ''H1'', None), (CObjectDiff ''Hext'' ''H0'', None)]\<rparr>)"
    using persist_conflict_aborts [where st = "world_of 0 (root_of mfs_conflict ''H0'' ''H1'')"
        and r = 1 and a = mfs_conflict and ?h0.0 = "''H0''" and ?h1.0 = "''H1''"
        and ?st1.0 = "(world_of 0 (root_of mfs_conflict ''H0'' ''H1''))
                        \<lparr>server := 2, trace := [(CPinAdd ''H1'' True, None), (CPinRm ''H0'', None)]\<rparr>"
        and externalHash = "''Hext''" and ?s1.0 = 3 and diff = "[changed ''a/b'' ''Qb'']" and ?s2.0 = 4
        and externalDiff = "[changed ''a/b/c'' ''Qc'']" and ?s3.0 = 5
        and e = "New ''Error: concurrent modification of the IPFS MFS. Consistency not guaranteed.''"
        and ?st2.0 = "(world_of 0 (root_of mfs_conflict ''H0'' ''H1''))
        \<lparr>server := 5,
         trace := [(CPinAdd ''H1'' True, None), (CPinRm ''H0'', None), (CFilesStat ''/'', None),
                   (CObjectDiff ''H0'' ''H1'', None), (CObjectDiff ''Hext'' ''H0'', None)]\<rparr>",
        THEN conjunct1]
    by (simp add: fixture_defs eval_defs)
  have 2: "persist 1 (world_of 0 (ipns_root_of ipns_conflict ''H0'' ''H1'')) =
     (Some (New ''concurrent modification of the IPFS IPNS. Consistency not guaranteed.''),
      (world_of 0 (ipns_root_of ipns_conflict ''H0'' ''H1''))
        \<lparr>server := 3,
         trace := [(CPinAdd ''H1'' True, None), (CPinRm ''H0'', None),
                   (CNameResolve ''/ipns/k51'', None)]\<rparr>)"
    using persist_conflict_aborts [where st = "world_of 0 (ipns_root_of ipns_conflict ''H0'' ''H1'')"
        and r = 1 and a = ipns_conflict and ?h0.0 = "''H0''" and ?h1.0 = "''H1''"
        and ?st1.0 = "(world_of 0 (ipns_root_of ipns_conflict ''H0'' ''H1''))
                        \<lparr>server := 2, trace := [(CPinAdd ''H1'' True, None), (CPinRm ''H0'', None)]\<rparr>"
        and p = "''/ipfs/Hext''" and ?s1.0 = 3
        and e = "New ''concurrent modification of the IPFS IPNS. Consistency not guaranteed.''"
        and ?st2.0 = "(world_of 0 (ipns_root_of ipns_conflict ''H0'' ''H1''))
        \<lparr>server := 3,
         trace := [(CPinAdd ''H1'' True, None), (CPinRm ''H0'', None),
                   (CNameResolve ''/ipns/k51'', None)]\<rparr>",
        THEN conjunct1]
    by (simp add: fixture_defs eval_defs path_Split_def)
  from 1 2 show ?thesis by blast
qed

subsection \<open>Read-only roots\<close>

text \<open>
  C7: on a read-only root each of \<open>Put\<close>, \<open>PutStream\<close>, \<open>Update\<close>, \<open>Remove\<close>, \<open>Mkdir\<close>,
  \<open>Rmdir\<close>, \<open>Copy\<close>, \<open>Move\<close>, \<open>DirMove\<close>, \<open>MergeDirs\<close> and \<open>Purge\<close> returns the
  read-only error of \<open>checkReadOnly\<close> and the state it was called in: no request has
  been issued, and neither the endpoint nor any root has changed.
\<close>

theorem readOnly_fails_fast:
  assumes "isReadOnly (roots st (ipfsRoot f))"
    and "err = New (''IPFS path '' @ [CHR 0x27] @ IpfsRoot (fs_opt f) @ [CHR 0x27] @ '' is read only!'')"
    and "o_fs obj = f"
  shows "Put f content srcRemote st = (Inl err, st) \<and>
         PutStream f content srcRemote st = (Inl err, st) \<and>
         Update obj content srcRemote st = (Some err, st) \<and>
         Remove obj st = (Some err, st) \<and>
         Mkdir f dir st = (Some err, f, st) \<and>
         Rmdir f dir st = (Some err, st) \<and>
         Copy f src remote st = (Inl err, st) \<and>
         Move f src remote st = (Inl err, st) \<and>
         DirMove f srcFs srcRemote dstRemote st = (Some err, st) \<and>
         MergeDirs f dirs st = (Some err, st) \<and>
         Purge f dir st = (Some err, f, st)"
proof -
  have c: "checkReadOnly f st = Some err"
    using assms(1,2) by (simp add: checkReadOnly_def)
  have put: "Put f content srcRemote st = (Inl err, st)" using c by (simp add: Put_def)
  have "PutStream f content srcRemote st = (Inl err, st)" using put by (simp add: PutStream_def)
  moreover have "Update obj content srcRemote st = (Some err, st)"
    using put assms(3) by (simp add: Update_def)
  moreover have "Remove obj st = (Some err, st)" using c assms(3) by (simp add: Remove_def)
  moreover have "Mkdir f dir st = (Some err, f, st)" using c by (simp add: Mkdir_def)
  moreover have "Rmdir f dir st = (Some err, st)" using c by (simp add: Rmdir_def)
  moreover have "Copy f src remote st = (Inl err, st)" using c by (simp add: Copy_def)
  moreover have "Move f src remote st = (Inl err, st)" using c by (simp add: Move_def)
  moreover have "DirMove f srcFs srcRemote dstRemote st = (Some err, st)" using c by (simp add: DirMove_def)
  moreover have "MergeDirs f dirs st = (Some err, st)" using c by (simp add: MergeDirs_def)
  moreover have "Purge f dir st = (Some err, f, st)" using c by (simp add: Purge_def)
  ultimately show ?thesis using put by blast
qed

theorem readOnly_fails_fast_witness:
  "Put readonly_fs ''abc'' ''file.txt'' readonly_world = (Inl readonly_error, readonly_world) \<and>
   Remove (object_of readonly_fs ''file.txt'' ''QmFile'') readonly_world = (Some readonly_error, readonly_world) \<and>
   MergeDirs readonly_fs [''a'', ''b''] readonly_world = (Some readonly_error, readonly_world)"
  using readOnly_fails_fast [where st = readonly_world and f = readonly_fs and err = readonly_error
      and obj = "object_of readonly_fs ''file.txt'' ''QmFile''" and content = "''abc''"
      and srcRemote = "''file.txt''" and dirs = "[''a'', ''b'']"]
  by (simp add: readonly_world_def readonly_fs_def readonly_error_def world_of_def
      readonly_root_of_def fs_of_def object_of_def)

subsection \<open>Mkdir of an existing directory\<close>




lemmas path_eval =
  path_Join_def path_Clean_def path_Split_def relativePath_def removeTrailingSlash_def
  strings_HasPrefix_def



subsection \<open>A failed patch\<close>

lemma only_requests_calls:
  assumes "only_requests st st1" "trace st2 = trace st1 @ evs"
  shows "calls_since st st2 = calls_since st st1 @ evs"
  using assms(1)
  by (rule only_requestsE) (simp add: calls_since_def assms(2))

lemma api_Ls_only: "api_Ls a p st = (r, st') \<Longrightarrow>
  \<exists>s e. st' = st\<lparr>server := s, trace := trace st @ [(CLs p, e)]\<rparr>"
  by (auto simp: api_Ls_def request_def split: prod.splits sum.splits list.splits)

lemma request_shape: "request c f st = (r, st') \<Longrightarrow>
  st' = st\<lparr>server := snd (f (server st)), trace := trace st @ [(c, case r of Inl e \<Rightarrow> Some e | Inr v \<Rightarrow> None)]\<rparr>"
  by (auto simp: request_def split: prod.splits)

lemma NewObject_quiet:
  assumes "NewObject f remote st = (r, st')"
  shows "\<exists>s evs. st' = st\<lparr>server := s, trace := trace st @ evs\<rparr> \<and>
           (\<forall>c e. (c, e) \<in> set evs \<longrightarrow> \<not> isPatch c)"
proof -
  let ?p = "path_Join [hash (roots st (ipfsRoot f)), relativePath f remote]"
  obtain r1 st1 where 1: "api_ObjectStat (fs_api f) ?p st = (r1, st1)"
    by (cases "api_ObjectStat (fs_api f) ?p st")
  then have st1: "st1 = st\<lparr>server := snd (on_ObjectStat (fs_api f) ?p (server st)),
      trace := trace st @ [(CObjectStat ?p, case r1 of Inl e \<Rightarrow> Some e | Inr v \<Rightarrow> None)]\<rparr>"
    unfolding api_ObjectStat_def by (rule request_shape)
  show ?thesis
  proof (cases "st' = st1")
    case True
    show ?thesis unfolding True st1
      by (intro exI conjI) (rule refl, simp add: isPatch_def)
  next
    case False
    obtain r2 st2 where 2: "api_Ls (fs_api f) (fst (path_Split ?p)) st1 = (r2, st2)"
      by (cases "api_Ls (fs_api f) (fst (path_Split ?p)) st1")
    from assms 1 False 2 have "st' = st2"
      by (auto simp: NewObject_def Let_def split: sum.splits if_splits prod.splits)
    moreover from 2 obtain s e where "st2 = st1\<lparr>server := s, trace := trace st1 @ [(CLs (fst (path_Split ?p)), e)]\<rparr>"
      using api_Ls_only by blast
    ultimately have "st' = st\<lparr>server := s, trace := trace st @
        [(CObjectStat ?p, case r1 of Inl e \<Rightarrow> Some e | Inr v \<Rightarrow> None), (CLs (fst (path_Split ?p)), e)]\<rparr>"
      by (simp add: st1)
    then show ?thesis
      by (intro exI conjI) (assumption, simp add: isPatch_def)
  qed
qed


lemmas patch_defs = patchFailed_def calls_since_def store_hash_def list_ex_iff

lemma Put_patch:
  assumes "Put f content srcRemote st = (r, st')" and "patchFailed e (calls_since st st')"
  shows "r = Inl e \<and> roots st' = roots st"
  using assms
  by (auto simp: Put_def checkReadOnly_def api_Add_def api_ObjectPatchAddLink_def request_def
      patch_defs Let_def
      split: option.splits prod.splits sum.splits if_splits dest!: NewObject_quiet) blast+

lemma Copy_patch:
  assumes "Copy f src remote st = (r, st')" and "patchFailed e (calls_since st st')"
  shows "r = Inl e \<and> roots st' = roots st"
  using assms
  by (auto simp: Copy_def checkReadOnly_def api_ObjectPatchAddLink_def request_def
      patch_defs Let_def
      split: option.splits prod.splits sum.splits if_splits dest!: NewObject_quiet) blast+

lemma Rmdir_patch:
  assumes "Rmdir f dir st = (r, st')" and "patchFailed e (calls_since st st')"
  shows "r = Some e \<and> roots st' = roots st"
  using assms
  by (auto simp: Rmdir_def checkReadOnly_def api_ObjectStat_def api_ObjectPatchRmLink_def request_def
      patch_defs Let_def
      split: option.splits prod.splits sum.splits if_splits)

lemma Remove_patch:
  assumes "Remove obj st = (r, st')" and "patchFailed e (calls_since st st')"
  shows "r = Some (if isApiError e then ErrorObjectNotFound else e) \<and> roots st' = roots st"
  using assms
  by (auto simp: Remove_def checkReadOnly_def api_ObjectPatchRmLink_def request_def
      patch_defs Let_def
      split: option.splits prod.splits sum.splits if_splits)


lemma Mkdir_patch:
  assumes "Mkdir f dir st = (r, f1, st')" and "patchFailed e (calls_since st st')"
  shows "r = Some e \<and> roots st' = roots st"
  using assms
  by (auto simp: Mkdir_def emptyDirHash_def checkReadOnly_def api_ObjectNewDir_def api_ObjectStat_def
      api_ObjectPatchAddLink_def request_def patch_defs Let_def
      split: option.splits prod.splits sum.splits if_splits)

lemma Purge_patch:
  assumes "Purge f dir st = (r, f1, st')" and "patchFailed e (calls_since st st')"
  shows "r = Some (if strings_Contains (Error e) ''not found'' then ErrorDirNotFound else e) \<and>
         roots st' = roots st"
  using assms
  by (auto simp: Purge_def emptyDirHash_def checkReadOnly_def api_ObjectNewDir_def
      api_ObjectPatchRmLink_def request_def patch_defs Let_def
      split: option.splits prod.splits sum.splits if_splits)

lemma addLinkFailed_simps:
  "addLinkFailed e [] = False"
  "addLinkFailed e ((c, eo) # evs) =
     ((case c of CObjectPatchAddLink rootHash p linkHash \<Rightarrow> eo = Some e | _ \<Rightarrow> False) \<or> addLinkFailed e evs)"
  by (auto simp: addLinkFailed_def split: call.splits)

lemma addLinkFailed_append:
  "addLinkFailed e (xs @ ys) = (addLinkFailed e xs \<or> addLinkFailed e ys)"
  by (auto simp: addLinkFailed_def list_ex_iff)

lemma addLinkFailed_patchFailed:
  assumes "addLinkFailed e evs"
  shows "patchFailed e evs"
proof -
  from assms obtain ev where ev: "ev \<in> set evs" "snd ev = Some e"
    "(case fst ev of CObjectPatchAddLink rootHash p linkHash \<Rightarrow> True | _ \<Rightarrow> False)"
    by (auto simp: addLinkFailed_def list_ex_iff)
  from ev(3) have "isPatch (fst ev)" by (cases "fst ev") simp_all
  with ev(1,2) show ?thesis by (auto simp: patchFailed_def list_ex_iff)
qed

lemma no_patch_no_addLink:
  "\<forall>c e. (c, e) \<in> set evs \<longrightarrow> \<not> isPatch c \<Longrightarrow> \<not> addLinkFailed e evs"
  by (auto dest!: addLinkFailed_patchFailed simp: patchFailed_def list_ex_iff) blast

lemma DirMove_addLink:
  assumes "DirMove f srcFs srcRemote dstRemote st = (r, st')" and "addLinkFailed e (calls_since st st')"
  shows "r = Some e \<and> roots st' = roots st"
  using assms
  by (auto simp: DirMove_def checkReadOnly_def api_ObjectStat_def api_ObjectPatchAddLink_def
      api_ObjectPatchRmLink_def request_def calls_since_def store_hash_def addLinkFailed_simps Let_def
      split: option.splits prod.splits sum.splits if_splits)

lemma Copy_addLink:
  assumes "Copy f src remote st = (r, st')" and "addLinkFailed e (calls_since st st')"
  shows "r = Inl e \<and> roots st' = roots st"
  using assms(1) addLinkFailed_patchFailed [OF assms(2)] by (rule Copy_patch)

lemma Copy_trace: "Copy f src remote st = (r, st') \<Longrightarrow> \<exists>evs. trace st' = trace st @ evs"
  by (auto simp: Copy_def checkReadOnly_def api_ObjectPatchAddLink_def request_def store_hash_def Let_def
      split: option.splits prod.splits sum.splits if_splits dest!: NewObject_quiet)

lemma Remove_calls:
  "Remove obj st = (r, st') \<Longrightarrow> \<exists>evs. trace st' = trace st @ evs \<and> \<not> addLinkFailed e evs"
  by (auto simp: Remove_def checkReadOnly_def api_ObjectPatchRmLink_def request_def store_hash_def
      addLinkFailed_simps Let_def
      split: option.splits prod.splits sum.splits if_splits)

lemma Remove_failed_roots: "Remove obj st = (Some err, st') \<Longrightarrow> roots st' = roots st"
  by (auto simp: Remove_def checkReadOnly_def api_ObjectPatchRmLink_def request_def store_hash_def
      split: option.splits prod.splits sum.splits if_splits)

lemma Move_addLink:
  assumes "Move f src remote st = (r, st')" and "addLinkFailed e (calls_since st st')"
  shows "r = Inl e \<and> roots st' = roots st"
proof (cases "checkReadOnly f st")
  case (Some err)
  with assms show ?thesis by (simp add: Move_def addLinkFailed_simps)
next
  case None
  obtain rc st1 where c: "Copy f src remote st = (rc, st1)" by (cases "Copy f src remote st")
  from c obtain evs1 where t1: "trace st1 = trace st @ evs1" using Copy_trace by blast
  show ?thesis
  proof (cases rc)
    case (Inl err)
    with assms None c have "r = rc" "st' = st1" by (simp_all add: Move_def)
    with c assms(2) show ?thesis using Copy_addLink by blast
  next
    case (Inr obj)
    obtain rr st2 where rm: "Remove src st1 = (rr, st2)" by (cases "Remove src st1")
    from rm obtain evs2 where t2: "trace st2 = trace st1 @ evs2" "\<not> addLinkFailed e evs2"
      using Remove_calls by blast
    from assms(1) None c Inr rm have "st' = st2" by (cases rr) (simp_all add: Move_def)
    with assms(2) t1 t2 have "addLinkFailed e evs1"
      by (simp add: calls_since_def addLinkFailed_append)
    then have "addLinkFailed e (calls_since st st1)" using t1 by (simp add: calls_since_def)
    with c have "rc = Inl e" using Copy_addLink by blast
    with Inr show ?thesis by simp
  qed
qed

lemma Move_remove_fails:
  assumes "\<not> isReadOnly (roots st (ipfsRoot f))" and "Copy f src remote st = (Inr obj, st1)"
    and "Remove src st1 = (Some err, st2)"
  shows "Move f src remote st = (Inl err, st2) \<and> roots st2 = roots st1"
  using assms Remove_failed_roots [OF assms(3)] by (simp add: Move_def checkReadOnly_def)


lemma mergeLinks_patch:
  "mergeLinks a srcPath links w st = (r, st') \<Longrightarrow>
   \<exists>s evs. st' = st\<lparr>server := s, trace := trace st @ evs\<rparr> \<and> (patchFailed e evs \<longrightarrow> r = Inl e)"
proof (induction links arbitrary: w st)
  case Nil
  then have "st' = st\<lparr>server := server st, trace := trace st @ []\<rparr>" by simp
  then show ?case by (intro exI conjI) (assumption, simp add: patchFailed_def)
next
  case (Cons link links)
  let ?c = "CObjectPatchAddLink w (path_Join [srcPath, Link_Name link]) (Link_Hash link)"
  obtain r1 s1 where 1: "on_ObjectPatchAddLink a w (path_Join [srcPath, Link_Name link]) (Link_Hash link) (server st) = (r1, s1)"
    by (cases "on_ObjectPatchAddLink a w (path_Join [srcPath, Link_Name link]) (Link_Hash link) (server st)")
  show ?case
  proof (cases r1)
    case (Inl err)
    with Cons.prems 1 have "r = Inl err" "st' = st\<lparr>server := s1, trace := trace st @ [(?c, Some err)]\<rparr>"
      by (simp_all add: api_ObjectPatchAddLink_def request_eq)
    then show ?thesis
      by (intro exI conjI) (assumption, simp add: patchFailed_def)
  next
    case (Inr result)
    let ?st1 = "st\<lparr>server := s1, trace := trace st @ [(?c, None)]\<rparr>"
    from Cons.prems 1 Inr have "mergeLinks a srcPath links result ?st1 = (r, st')"
      by (simp add: api_ObjectPatchAddLink_def request_eq)
    from Cons.IH [OF this] obtain s evs where
      st': "st' = ?st1\<lparr>server := s, trace := trace ?st1 @ evs\<rparr>" and pf: "patchFailed e evs \<longrightarrow> r = Inl e"
      by blast
    from st' have "st' = st\<lparr>server := s, trace := trace st @ ((?c, None) # evs)\<rparr>" by simp
    moreover from pf have "patchFailed e ((?c, None) # evs) \<longrightarrow> r = Inl e"
      by (simp add: patchFailed_def)
    ultimately show ?thesis by blast
  qed
qed

lemma mergeEach_patch:
  "mergeEach f srcPath dirs w st = (r, st') \<Longrightarrow>
   \<exists>s evs. st' = st\<lparr>server := s, trace := trace st @ evs\<rparr> \<and> (patchFailed e evs \<longrightarrow> r = Inl e)"
proof (induction dirs arbitrary: w st)
  case Nil
  then have "st' = st\<lparr>server := server st, trace := trace st @ []\<rparr>" by simp
  then show ?case by (intro exI conjI) (assumption, simp add: patchFailed_def)
next
  case (Cons dir dirs)
  let ?p = "path_Join [w, fs_root f, dir]"
  obtain r1 st1 where ls: "api_Ls (fs_api f) ?p st = (r1, st1)" by (cases "api_Ls (fs_api f) ?p st")
  then obtain s1 e1 where st1: "st1 = st\<lparr>server := s1, trace := trace st @ [(CLs ?p, e1)]\<rparr>"
    using api_Ls_only by blast
  show ?case
  proof (cases r1)
    case (Inl err)
    with Cons.prems ls have "st' = st1" by simp
    with st1 show ?thesis
      by (intro exI conjI) (simp, simp add: patchFailed_def)
  next
    case (Inr links)
    obtain r2 st2 where ml: "mergeLinks (fs_api f) srcPath links w st1 = (r2, st2)"
      by (cases "mergeLinks (fs_api f) srcPath links w st1")
    from mergeLinks_patch [OF ml] obtain s2 evs2 where
      st2: "st2 = st1\<lparr>server := s2, trace := trace st1 @ evs2\<rparr>" and pf2: "patchFailed e evs2 \<longrightarrow> r2 = Inl e"
      by blast
    show ?thesis
    proof (cases r2)
      case (Inl err)
      with Cons.prems ls \<open>r1 = Inr links\<close> ml have "r = r2" "st' = st2" by simp_all
      with st1 st2 pf2 have "st' = st\<lparr>server := s2, trace := trace st @ ((CLs ?p, e1) # evs2)\<rparr>"
        and "patchFailed e ((CLs ?p, e1) # evs2) \<longrightarrow> r = Inl e"
        by (simp_all add: patchFailed_def)
      then show ?thesis by blast
    next
      case (Inr added)
      with pf2 have no2: "\<not> patchFailed e evs2" by auto
      let ?c = "CObjectPatchRmLink added (relativePath f dir)"
      obtain r3 s3 where 3: "on_ObjectPatchRmLink (fs_api f) added (relativePath f dir) (server st2) = (r3, s3)"
        by (cases "on_ObjectPatchRmLink (fs_api f) added (relativePath f dir) (server st2)")
      show ?thesis
      proof (cases r3)
        case (Inl err)
        with Cons.prems ls \<open>r1 = Inr links\<close> ml \<open>r2 = Inr added\<close> 3
        have "r = Inl err" "st' = st2\<lparr>server := s3, trace := trace st2 @ [(?c, Some err)]\<rparr>"
          by (simp_all add: api_ObjectPatchRmLink_def request_eq)
        with st1 st2 no2
        have "st' = st\<lparr>server := s3, trace := trace st @ ((CLs ?p, e1) # evs2 @ [(?c, Some err)])\<rparr>"
          and "patchFailed e ((CLs ?p, e1) # evs2 @ [(?c, Some err)]) \<longrightarrow> r = Inl e"
          by (auto simp add: patchFailed_def list_ex_iff)
        then show ?thesis by blast
      next
        case (Inr result)
        let ?st3 = "st2\<lparr>server := s3, trace := trace st2 @ [(?c, None)]\<rparr>"
        from Cons.prems ls \<open>r1 = Inr links\<close> ml \<open>r2 = Inr added\<close> 3 Inr
        have "mergeEach f srcPath dirs result ?st3 = (r, st')"
          by (simp add: api_ObjectPatchRmLink_def request_eq)
        from Cons.IH [OF this] obtain s evs where
          st': "st' = ?st3\<lparr>server := s, trace := trace ?st3 @ evs\<rparr>" and pf: "patchFailed e evs \<longrightarrow> r = Inl e"
          by blast
        from st' st1 st2
        have "st' = st\<lparr>server := s, trace := trace st @ ((CLs ?p, e1) # evs2 @ (?c, None) # evs)\<rparr>"
          by simp
        moreover from pf no2
        have "patchFailed e ((CLs ?p, e1) # evs2 @ (?c, None) # evs) \<longrightarrow> r = Inl e"
          by (auto simp add: patchFailed_def list_ex_iff)
        ultimately show ?thesis by blast
      qed
    qed
  qed
qed

lemma MergeDirs_patch:
  assumes "MergeDirs f dirs st = (r, st')" and "patchFailed e (calls_since st st')"
  shows "r = Some e \<and> roots st' = roots st"
proof (cases "checkReadOnly f st")
  case (Some err)
  with assms show ?thesis by (simp add: MergeDirs_def patchFailed_def)
next
  case None
  show ?thesis
  proof (cases dirs)
    case Nil
    with assms None show ?thesis by (simp add: MergeDirs_def patchFailed_def)
  next
    case (Cons firstDirectory others)
    obtain r1 st1 where me: "mergeEach f (relativePath f firstDirectory) others (hash (roots st (ipfsRoot f))) st = (r1, st1)"
      by (cases "mergeEach f (relativePath f firstDirectory) others (hash (roots st (ipfsRoot f))) st")
    from mergeEach_patch [OF me] obtain s evs where
      st1: "st1 = st\<lparr>server := s, trace := trace st @ evs\<rparr>" and pf: "patchFailed e evs \<longrightarrow> r1 = Inl e"
      by blast
    show ?thesis
    proof (cases r1)
      case (Inl err)
      with assms None Cons me have "r = Some err" "st' = st1" by (simp_all add: MergeDirs_def)
      with assms(2) st1 pf Inl show ?thesis by (simp add: calls_since_def)
    next
      case (Inr w)
      with assms None Cons me have "st' = store_hash (ipfsRoot f) w st1" by (simp add: MergeDirs_def)
      with assms(2) st1 have "patchFailed e evs" by (simp add: calls_since_def store_hash_def)
      with pf Inr show ?thesis by simp
    qed
  qed
qed


text \<open>
  C6, as the claim words it, fails for \<open>Move\<close>, which is a \<open>Copy\<close> followed by a
  \<open>Remove\<close> of the source. Where the link of the copy is added and the removal of the
  source link fails with an API error, \<open>Move\<close> returns \<open>ErrorObjectNotFound\<close>, not the
  error of the patch, and the root is left at the hash \<open>H1\<close> that the copy stored in the
  middle of the operation.
\<close>

theorem Move_counterexample:
  "Move (fs_of remove_fails []) (object_of (fs_of remove_fails []) ''a.txt'' ''QmFile'') ''b.txt''
       (world_of 0 (root_of remove_fails ''H0'' ''H0'')) =
     (Inl ErrorObjectNotFound, half_moved) \<and>
   patchFailed no_link (calls_since (world_of 0 (root_of remove_fails ''H0'' ''H0'')) half_moved) \<and>
   hash (roots (world_of 0 (root_of remove_fails ''H0'' ''H0'')) 1) = ''H0'' \<and>
   hash (roots half_moved 1) = ''H1''"
  by (simp add: Move_def Copy_def Remove_def NewObject_def newObject_def checkReadOnly_def
      api_ObjectPatchAddLink_def api_ObjectPatchRmLink_def api_ObjectStat_def api_Ls_def request_def
      store_hash_def remove_fails_def no_link_def offline_def half_moved_def copied_world_def fs_of_def object_of_def
      world_of_def root_of_def stat_of_def path_eval patchFailed_def calls_since_def
      FileEntryTypeFile_def convertToFileSize_def convertSmallFileSize_def int64_eval Let_def)

text \<open>
  C6 (amended): in \<open>Put\<close>, \<open>Mkdir\<close>, \<open>Rmdir\<close>, \<open>Copy\<close>, \<open>MergeDirs\<close>, \<open>Remove\<close> and
  \<open>Purge\<close>, when one of the DAG patch requests of the operation fails with an error,
  the operation returns an error and every root is as before the operation: nothing was
  stored in the root. The error returned is the error of the patch, except that
  \<open>Remove\<close> returns \<open>ErrorObjectNotFound\<close> for an API error and \<open>Purge\<close> returns
  \<open>ErrorDirNotFound\<close> for an error whose text contains \<open>not found\<close>. In \<open>DirMove\<close> and
  \<open>Move\<close> the same holds when the request that fails is the one adding the link. When
  the \<open>Remove\<close> step of a \<open>Move\<close> fails after its \<open>Copy\<close>, \<open>Move\<close> returns the error
  of \<open>Remove\<close> and the roots stay as the \<open>Copy\<close> left them.
\<close>

theorem patch_failure_aborts:
  "(patchFailed e (calls_since st (snd (Put f content srcRemote st))) \<longrightarrow>
      fst (Put f content srcRemote st) = Inl e \<and> roots (snd (Put f content srcRemote st)) = roots st) \<and>
   (patchFailed e (calls_since st (snd (snd (Mkdir f dir st)))) \<longrightarrow>
      fst (Mkdir f dir st) = Some e \<and> roots (snd (snd (Mkdir f dir st))) = roots st) \<and>
   (patchFailed e (calls_since st (snd (Rmdir f dir st))) \<longrightarrow>
      fst (Rmdir f dir st) = Some e \<and> roots (snd (Rmdir f dir st)) = roots st) \<and>
   (patchFailed e (calls_since st (snd (Copy f src remote st))) \<longrightarrow>
      fst (Copy f src remote st) = Inl e \<and> roots (snd (Copy f src remote st)) = roots st) \<and>
   (patchFailed e (calls_since st (snd (MergeDirs f dirs st))) \<longrightarrow>
      fst (MergeDirs f dirs st) = Some e \<and> roots (snd (MergeDirs f dirs st)) = roots st) \<and>
   (patchFailed e (calls_since st (snd (Remove obj st))) \<longrightarrow>
      fst (Remove obj st) = Some (if isApiError e then ErrorObjectNotFound else e) \<and>
      roots (snd (Remove obj st)) = roots st) \<and>
   (patchFailed e (calls_since st (snd (snd (Purge f dir st)))) \<longrightarrow>
      fst (Purge f dir st) =
        Some (if strings_Contains (Error e) ''not found'' then ErrorDirNotFound else e) \<and>
      roots (snd (snd (Purge f dir st))) = roots st) \<and>
   (addLinkFailed e (calls_since st (snd (DirMove f srcFs srcRemote dstRemote st))) \<longrightarrow>
      fst (DirMove f srcFs srcRemote dstRemote st) = Some e \<and>
      roots (snd (DirMove f srcFs srcRemote dstRemote st)) = roots st) \<and>
   (addLinkFailed e (calls_since st (snd (Move f src remote st))) \<longrightarrow>
      fst (Move f src remote st) = Inl e \<and> roots (snd (Move f src remote st)) = roots st) \<and>
   (\<not> isReadOnly (roots st (ipfsRoot f)) \<and> Copy f src remote st = (Inr copied, st1) \<and>
    Remove src st1 = (Some err, st2) \<longrightarrow>
      Move f src remote st = (Inl err, st2) \<and> roots st2 = roots st1)"
proof (intro conjI impI)
  assume "patchFailed e (calls_since st (snd (Put f content srcRemote st)))"
  then show "fst (Put f content srcRemote st) = Inl e" "roots (snd (Put f content srcRemote st)) = roots st"
    using Put_patch [OF surjective_pairing] by blast+
next
  assume "patchFailed e (calls_since st (snd (snd (Mkdir f dir st))))"
  then show "fst (Mkdir f dir st) = Some e" "roots (snd (snd (Mkdir f dir st))) = roots st"
    using Mkdir_patch [of f dir st "fst (Mkdir f dir st)" "fst (snd (Mkdir f dir st))" "snd (snd (Mkdir f dir st))" e]
    by simp_all
next
  assume "patchFailed e (calls_since st (snd (Rmdir f dir st)))"
  then show "fst (Rmdir f dir st) = Some e" "roots (snd (Rmdir f dir st)) = roots st"
    using Rmdir_patch [OF surjective_pairing] by blast+
next
  assume "patchFailed e (calls_since st (snd (Copy f src remote st)))"
  then show "fst (Copy f src remote st) = Inl e" "roots (snd (Copy f src remote st)) = roots st"
    using Copy_patch [OF surjective_pairing] by blast+
next
  assume "patchFailed e (calls_since st (snd (MergeDirs f dirs st)))"
  then show "fst (MergeDirs f dirs st) = Some e" "roots (snd (MergeDirs f dirs st)) = roots st"
    using MergeDirs_patch [OF surjective_pairing] by blast+
next
  assume "patchFailed e (calls_since st (snd (Remove obj st)))"
  then show "fst (Remove obj st) = Some (if isApiError e then ErrorObjectNotFound else e)"
    "roots (snd (Remove obj st)) = roots st"
    using Remove_patch [OF surjective_pairing] by blast+
next
  assume "patchFailed e (calls_since st (snd (snd (Purge f dir st))))"
  then show "fst (Purge f dir st) =
        Some (if strings_Contains (Error e) ''not found'' then ErrorDirNotFound else e)"
    "roots (snd (snd (Purge f dir st))) = roots st"
    using Purge_patch [of f dir st "fst (Purge f dir st)" "fst (snd (Purge f dir st))" "snd (snd (Purge f dir st))" e]
    by simp_all
next
  assume "addLinkFailed e (calls_since st (snd (DirMove f srcFs srcRemote dstRemote st)))"
  then show "fst (DirMove f srcFs srcRemote dstRemote st) = Some e"
    "roots (snd (DirMove f srcFs srcRemote dstRemote st)) = roots st"
    using DirMove_addLink [OF surjective_pairing] by blast+
next
  assume "addLinkFailed e (calls_since st (snd (Move f src remote st)))"
  then show "fst (Move f src remote st) = Inl e" "roots (snd (Move f src remote st)) = roots st"
    using Move_addLink [OF surjective_pairing] by blast+
next
  assume "\<not> isReadOnly (roots st (ipfsRoot f)) \<and> Copy f src remote st = (Inr copied, st1) \<and>
    Remove src st1 = (Some err, st2)"
  then show "Move f src remote st = (Inl err, st2)" "roots st2 = roots st1"
    using Move_remove_fails by blast+
qed


lemmas ops_eval =
  Move_def Copy_def Remove_def Put_def NewObject_def newObject_def checkReadOnly_def
  api_Add_def api_ObjectPatchAddLink_def api_ObjectPatchRmLink_def api_ObjectStat_def api_Ls_def
  request_def store_hash_def fs_of_def object_of_def world_of_def root_of_def stat_of_def path_eval
  patchFailed_def calls_since_def FileEntryTypeFile_def convertToFileSize_def
  convertSmallFileSize_def int64_eval Let_def

theorem patch_failure_aborts_witness:
  "fst (Put (fs_of patch_refused []) ''abc'' ''a.txt'' (world_of 0 (root_of patch_refused ''H0'' ''H0''))) =
     Inl refused \<and>
   roots (snd (Put (fs_of patch_refused []) ''abc'' ''a.txt'' (world_of 0 (root_of patch_refused ''H0'' ''H0'')))) =
     roots (world_of 0 (root_of patch_refused ''H0'' ''H0'')) \<and>
   fst (Remove (object_of (fs_of remove_fails []) ''a.txt'' ''QmFile'')
          (world_of 0 (root_of remove_fails ''H0'' ''H0''))) = Some ErrorObjectNotFound \<and>
   Move (fs_of remove_fails []) (object_of (fs_of remove_fails []) ''a.txt'' ''QmFile'') ''b.txt''
       (world_of 0 (root_of remove_fails ''H0'' ''H0'')) =
     (Inl ErrorObjectNotFound, half_moved) \<and>
   roots half_moved = roots copied_world"
proof -
  have 1: "fst (Put (fs_of patch_refused []) ''abc'' ''a.txt'' (world_of 0 (root_of patch_refused ''H0'' ''H0''))) =
     Inl refused \<and>
   roots (snd (Put (fs_of patch_refused []) ''abc'' ''a.txt'' (world_of 0 (root_of patch_refused ''H0'' ''H0'')))) =
     roots (world_of 0 (root_of patch_refused ''H0'' ''H0''))"
    using patch_failure_aborts [where e = refused and st = "world_of 0 (root_of patch_refused ''H0'' ''H0'')"
        and f = "fs_of patch_refused []" and content = "''abc''" and srcRemote = "''a.txt''",
        THEN conjunct1]
    by (simp add: ops_eval patch_refused_def offline_def refused_def isPatch_def)
  have 2: "fst (Remove (object_of (fs_of remove_fails []) ''a.txt'' ''QmFile'')
          (world_of 0 (root_of remove_fails ''H0'' ''H0''))) = Some ErrorObjectNotFound"
    using patch_failure_aborts [where e = no_link and st = "world_of 0 (root_of remove_fails ''H0'' ''H0'')"
        and obj = "object_of (fs_of remove_fails []) ''a.txt'' ''QmFile''",
        THEN conjunct2, THEN conjunct2, THEN conjunct2, THEN conjunct2, THEN conjunct2, THEN conjunct1]
    by (simp add: ops_eval remove_fails_def offline_def no_link_def isPatch_def)
  have 3: "Move (fs_of remove_fails []) (object_of (fs_of remove_fails []) ''a.txt'' ''QmFile'') ''b.txt''
       (world_of 0 (root_of remove_fails ''H0'' ''H0'')) =
     (Inl ErrorObjectNotFound, half_moved) \<and> roots half_moved = roots copied_world"
    using patch_failure_aborts [where st = "world_of 0 (root_of remove_fails ''H0'' ''H0'')"
        and f = "fs_of remove_fails []" and src = "object_of (fs_of remove_fails []) ''a.txt'' ''QmFile''"
        and remote = "''b.txt''" and copied = "object_of (fs_of remove_fails []) ''b.txt'' ''QmFile''"
        and ?st1.0 = copied_world and err = ErrorObjectNotFound and ?st2.0 = half_moved,
        THEN conjunct2, THEN conjunct2, THEN conjunct2, THEN conjunct2, THEN conjunct2,
        THEN conjunct2, THEN conjunct2, THEN conjunct2, THEN conjunct2]
    by (simp add: ops_eval remove_fails_def offline_def no_link_def half_moved_def copied_world_def)
  from 1 2 3 show ?thesis by blast
qed

subsection \<open>The registry of shared roots\<close>









lemma registry_ok_locked [simp]:
  "registry_ok (st\<lparr>sharedRoot_locked := b\<rparr>) = registry_ok st"
  by (simp add: registry_ok_def)









end
